theory Spec2Isabelle
  imports Main "HOL-Library.Word"
begin

section \<open>The storage lifecycle controller of Infinity\<close>

text \<open>
  The embedded code is the implementation of the module \<open>storage\<close>, the second
  document of \<open>src/executor/operator/physical_delete.cppm\<close>: the functions
  \<open>Storage::SetStorageMode\<close>, \<open>Storage::SetReaderStorageContinue\<close>,
  \<open>Storage::AttachCatalog\<close>, \<open>Storage::LoadFullCheckpoint\<close>,
  \<open>Storage::AttachDeltaCheckpoint\<close> and \<open>Storage::CreateDefaultDB\<close>.
  The controller owns its subsystems through \<open>unique_ptr\<close> members; a member is
  modelled as an optional object, \<open>None\<close> being the null pointer. The subsystems
  themselves are collaborators: of each the model keeps its identity, whether it runs
  and the pointers it was given, and logs the calls made on it.
\<close>

subsection \<open>Enumerations\<close>

datatype StorageMode = kUnInitialized | kAdmin | kReadable | kWritable

text \<open>
  Modelled from the spec: the enumeration \<open>ReaderInitPhase\<close> is declared in the
  interface of the storage module, which is not among the sources. The spec lists the
  values None, Phase1 and Phase2; the code names \<open>kPhase1\<close> and \<open>kPhase2\<close>.
\<close>

datatype ReaderInitPhase = kNone | kPhase1 | kPhase2

text \<open>
  The code switches on \<open>kLocal\<close> and \<open>kMinio\<close> and reaches \<open>default:\<close> for every
  other enumerator; \<open>kUnsupported\<close> stands for those.
\<close>

datatype StorageType = kLocal | kMinio | kUnsupported

datatype Status = OK | Error string

fun ok :: "Status \<Rightarrow> bool" where
  "ok OK = True"
| "ok (Error msg) = False"

type_synonym TxnTimeStamp = "64 word"

subsection \<open>Configuration and collaborators' answers\<close>

text \<open>The values \<open>config_ptr_\<close> is read for where they decide control flow or wiring.\<close>

record Config =
  StorageType :: StorageType
  PersistenceDir :: string
  CompactInterval :: int
  OptimizeIndexInterval :: int
  CleanupInterval :: int
  FullCheckpointInterval :: int
  DeltaCheckpointInterval :: int
  ResultCache :: string

text \<open>
  What the external collaborators answer during one call: the status of
  \<open>VirtualStore::InitRemoteStore\<close>, the timestamp returned by
  \<open>WalManager::ReplayWalFile\<close>, whether that replay attached a catalog through the
  back-reference the WAL manager holds to the controller, and the status of
  \<open>Txn::CreateDatabase\<close>.
\<close>

record Env =
  InitRemoteStore_status :: Status
  ReplayWalFile_ts :: TxnTimeStamp
  ReplayWalFile_attaches_catalog :: bool
  CreateDatabase_status :: Status

subsection \<open>Owned objects\<close>

datatype handle =
    WAL | CATALOG | TXN | BUFFER | PERSISTENCE | OBJECT_STORAGE | BG | COMPACT
  | MEM_INDEX_TRACER | PERIODIC_TRIGGER | RESULT_CACHE | CLEANUP_TRACER

datatype run_state = Created | Running | Stopped

text \<open>
  An object has an identity (\<open>oid\<close>, fresh at each \<open>MakeUnique\<close>), a run state and the
  raw pointers it was constructed with (\<open>None\<close> is \<open>nullptr\<close>).
\<close>

record Component =
  oid :: nat
  run :: run_state
  refs :: "nat option list"

datatype Trigger =
    CheckpointPeriodicTrigger int "nat option" bool
  | CompactSegmentPeriodicTrigger int "nat option"
  | OptimizeIndexPeriodicTrigger int "nat option"
  | CleanupPeriodicTrigger int "nat option" "nat option" "nat option"

record BGTaskProcessor =
  bg_oid :: nat
  bg_run :: run_state
  bg_refs :: "nat option list"
  bg_cleanup_trigger :: "Trigger option"

record PeriodicTriggerThread =
  ptt_oid :: nat
  ptt_run :: run_state
  full_checkpoint_trigger :: "Trigger option"
  delta_checkpoint_trigger :: "Trigger option"
  compact_segment_trigger :: "Trigger option"
  optimize_index_trigger :: "Trigger option"
  cleanup_trigger :: "Trigger option"

text \<open>The calls the controller makes on its collaborators, in the order it makes them.\<close>

datatype event =
    Construct handle
  | Start handle
  | Stop handle
  | Reset handle
  | InitRemoteStore
  | UnInitRemoteStore
  | ReplayWalFile StorageMode
  | CatalogCall string
  | SetCleanupTrigger
  | BeginTxn string
  | SetReaderAllowed
  | CreateDatabase string string
  | CommitTxn
  | SubmitForceCheckpoint
  | WaitForceCheckpoint

subsection \<open>The controller's state\<close>

text \<open>
  The members of \<open>Storage\<close>, named as in the source without the trailing
  underscore, which a record field cannot carry; the process-wide flag behind
  \<open>VirtualStore::IsInit\<close>; the allocation counter and the log of calls made so far.
\<close>

record Storage =
  current_storage_mode :: StorageMode
  reader_init_phase :: ReaderInitPhase
  wal_mgr :: "Component option"
  new_catalog :: "Component option"
  txn_mgr :: "Component option"
  buffer_mgr :: "Component option"
  persistence_manager :: "Component option"
  object_storage_processor :: "Component option"
  bg_processor :: "BGTaskProcessor option"
  compact_processor :: "Component option"
  memory_index_tracer :: "Component option"
  periodic_trigger_thread :: "PeriodicTriggerThread option"
  result_cache_manager :: "Component option"
  cleanup_info_tracer :: "Component option"
  VirtualStore_IsInit :: bool
  next_oid :: nat
  events :: "event list"

text \<open>
  Modelled from the spec: the member initialisers stand in the interface of the
  module, which is not among the sources. A freshly constructed controller has the
  mode \<open>kUnInitialized\<close>, no reader phase and every member null.
\<close>

definition Storage_init :: Storage where
  "Storage_init =
     \<lparr>current_storage_mode = kUnInitialized, reader_init_phase = kNone,
      wal_mgr = None, new_catalog = None, txn_mgr = None, buffer_mgr = None,
      persistence_manager = None, object_storage_processor = None,
      bg_processor = None, compact_processor = None, memory_index_tracer = None,
      periodic_trigger_thread = None, result_cache_manager = None,
      cleanup_info_tracer = None, VirtualStore_IsInit = False, next_oid = 0,
      events = []\<rparr>"

text \<open>
  \<open>Storage::GetStorageMode\<close> reads the mode under the mutex;
  \<open>Storage::result_cache_manager\<close> hands the result cache out only when the option
  "result cache" is "on", \<open>Storage::GetResultCacheManagerPtr\<close> always.
\<close>

definition GetStorageMode :: "Storage \<Rightarrow> StorageMode" where
  "GetStorageMode s = current_storage_mode s"

definition Storage_result_cache_manager :: "Config \<Rightarrow> Storage \<Rightarrow> Component option" where
  "Storage_result_cache_manager cfg s =
     (if ResultCache cfg \<noteq> ''on'' then None else result_cache_manager s)"

definition GetResultCacheManagerPtr :: "Storage \<Rightarrow> Component option" where
  "GetResultCacheManagerPtr s = result_cache_manager s"

subsection \<open>Outcomes and sequencing\<close>

text \<open>
  \<open>UnrecoverableError\<close> aborts the call (the messages are the source's, without
  what \<open>fmt::format\<close> appends); dereferencing a null member is a crash, reported
  with the member's name. A member is not tested again where the statement before
  has constructed it.
\<close>

datatype abort = UnrecoverableError string | NullPointer string

type_synonym stmt = "Storage \<Rightarrow> abort + Storage"

definition exec :: "(Storage \<Rightarrow> Storage) \<Rightarrow> stmt" where
  "exec f s = Inr (f s)"

definition fatal_if :: "(Storage \<Rightarrow> bool) \<Rightarrow> string \<Rightarrow> stmt" where
  "fatal_if c msg s = (if c s then Inl (UnrecoverableError msg) else Inr s)"

definition deref :: "(Storage \<Rightarrow> 'a option) \<Rightarrow> string \<Rightarrow> stmt" where
  "deref h name s = (if h s = None then Inl (NullPointer name) else Inr s)"

fun seq :: "stmt list \<Rightarrow> stmt" where
  "seq [] s = Inr s"
| "seq (f # fs) s = (case f s of Inl e \<Rightarrow> Inl e | Inr s' \<Rightarrow> seq fs s')"

definition cond :: "(Storage \<Rightarrow> bool) \<Rightarrow> stmt list \<Rightarrow> stmt" where
  "cond c fs s = (if c s then seq fs s else Inr s)"

definition returning :: "Status \<Rightarrow> abort + Storage \<Rightarrow> abort + Status \<times> Storage" where
  "returning st r = (case r of Inl e \<Rightarrow> Inl e | Inr s \<Rightarrow> Inr (st, s))"

definition log :: "event list \<Rightarrow> Storage \<Rightarrow> Storage" where
  "log es s = s\<lparr>events := events s @ es\<rparr>"

definition present :: "'a option \<Rightarrow> event list \<Rightarrow> event list" where
  "present h es = (case h of None \<Rightarrow> [] | Some x \<Rightarrow> es)"

definition MakeUnique :: "Storage \<Rightarrow> nat option list \<Rightarrow> Component" where
  "MakeUnique s rs = \<lparr>oid = next_oid s, run = Created, refs = rs\<rparr>"

definition get :: "Component option \<Rightarrow> nat option" where
  "get h = map_option oid h"

definition set_mode :: "StorageMode \<Rightarrow> Storage \<Rightarrow> Storage" where
  "set_mode m s = s\<lparr>current_storage_mode := m\<rparr>"

definition clamp :: "int \<Rightarrow> int" where
  "clamp i = (if i > 0 then i else 0)"

subsection \<open>Statements on single members\<close>

text \<open>
  \<open>cleanup_info_tracer_ = MakeUnique<CleanupInfoTracer>()\<close>: the old tracer, if any, is
  destroyed.
\<close>

definition construct_cleanup_info_tracer :: "Storage \<Rightarrow> Storage" where
  "construct_cleanup_info_tracer s =
     s\<lparr>cleanup_info_tracer := Some (MakeUnique s []), next_oid := Suc (next_oid s),
       events := events s @ [Construct CLEANUP_TRACER]
                   @ present (cleanup_info_tracer s) [Reset CLEANUP_TRACER]\<rparr>"

definition construct_wal_mgr :: "Storage \<Rightarrow> Storage" where
  "construct_wal_mgr s =
     s\<lparr>wal_mgr := Some (MakeUnique s []), next_oid := Suc (next_oid s),
       events := events s @ [Construct WAL]\<rparr>"

text \<open>\<open>wal_mgr_.reset()\<close> without a stop, as in Admin to UnInitialized.\<close>

definition reset_wal_mgr :: "Storage \<Rightarrow> Storage" where
  "reset_wal_mgr s =
     (case wal_mgr s of None \<Rightarrow> s
      | Some w \<Rightarrow> log [Reset WAL] (s\<lparr>wal_mgr := None\<rparr>))"

text \<open>
  The object storage processor, the buffer manager, the transaction manager and the
  compaction processor are started in the statement after their construction; the
  two statements are one step here.
\<close>

definition construct_object_storage_processor :: "Storage \<Rightarrow> Storage" where
  "construct_object_storage_processor s =
     s\<lparr>object_storage_processor := Some ((MakeUnique s [])\<lparr>run := Running\<rparr>),
       next_oid := Suc (next_oid s),
       events := events s @ [Construct OBJECT_STORAGE, Start OBJECT_STORAGE]\<rparr>"

definition construct_persistence_manager :: "Storage \<Rightarrow> Storage" where
  "construct_persistence_manager s =
     s\<lparr>persistence_manager := Some (MakeUnique s []), next_oid := Suc (next_oid s),
       events := events s @ [Construct PERSISTENCE]\<rparr>"

text \<open>\<open>if (result_cache_manager_ == nullptr) result_cache_manager_ = MakeUnique<...>\<close>.\<close>

definition construct_result_cache_manager :: "Storage \<Rightarrow> Storage" where
  "construct_result_cache_manager s =
     (case result_cache_manager s of
        None \<Rightarrow> s\<lparr>result_cache_manager := Some (MakeUnique s []),
                   next_oid := Suc (next_oid s),
                   events := events s @ [Construct RESULT_CACHE]\<rparr>
      | Some r \<Rightarrow> s)"

text \<open>The buffer manager is given \<open>persistence_manager_.get()\<close> and started.\<close>

definition construct_buffer_mgr :: "Storage \<Rightarrow> Storage" where
  "construct_buffer_mgr s =
     s\<lparr>buffer_mgr := Some ((MakeUnique s [get (persistence_manager s)])\<lparr>run := Running\<rparr>),
       next_oid := Suc (next_oid s),
       events := events s @ [Construct BUFFER, Start BUFFER]\<rparr>"

text \<open>
  \<open>Catalog::LoadFromFiles\<close>, \<open>Catalog::LoadFullCheckpoint\<close> and \<open>Catalog::NewCatalog\<close>
  assigned to \<open>new_catalog_\<close>: a catalog already there is destroyed.
\<close>

definition assign_new_catalog :: "nat option list \<Rightarrow> Storage \<Rightarrow> Storage" where
  "assign_new_catalog rs s =
     s\<lparr>new_catalog := Some (MakeUnique s rs), next_oid := Suc (next_oid s),
       events := events s @ [Construct CATALOG] @ present (new_catalog s) [Reset CATALOG]\<rparr>"

definition construct_bg_processor :: "Storage \<Rightarrow> Storage" where
  "construct_bg_processor s =
     s\<lparr>bg_processor :=
         Some \<lparr>bg_oid = next_oid s, bg_run = Created,
               bg_refs = [get (wal_mgr s), get (new_catalog s)],
               bg_cleanup_trigger = None\<rparr>,
       next_oid := Suc (next_oid s),
       events := events s @ [Construct BG]\<rparr>"

definition start_bg_processor :: "Storage \<Rightarrow> Storage" where
  "start_bg_processor s =
     log [Start BG]
       (s\<lparr>bg_processor := map_option (\<lambda>b. b\<lparr>bg_run := Running\<rparr>) (bg_processor s)\<rparr>)"

definition construct_txn_mgr :: "Storage \<Rightarrow> Storage" where
  "construct_txn_mgr s =
     s\<lparr>txn_mgr :=
         Some ((MakeUnique s [get (buffer_mgr s), get (wal_mgr s)])\<lparr>run := Running\<rparr>),
       next_oid := Suc (next_oid s),
       events := events s @ [Construct TXN, Start TXN]\<rparr>"

definition start_wal_mgr :: "Storage \<Rightarrow> Storage" where
  "start_wal_mgr s =
     log [Start WAL] (s\<lparr>wal_mgr := map_option (\<lambda>w. w\<lparr>run := Running\<rparr>) (wal_mgr s)\<rparr>)"

definition construct_memory_index_tracer :: "Storage \<Rightarrow> Storage" where
  "construct_memory_index_tracer s =
     s\<lparr>memory_index_tracer := Some (MakeUnique s [get (new_catalog s), get (txn_mgr s)]),
       next_oid := Suc (next_oid s),
       events := events s @ [Construct MEM_INDEX_TRACER]\<rparr>"

definition construct_compact_processor :: "Storage \<Rightarrow> Storage" where
  "construct_compact_processor s =
     s\<lparr>compact_processor :=
         Some ((MakeUnique s [get (new_catalog s), get (txn_mgr s)])\<lparr>run := Running\<rparr>),
       next_oid := Suc (next_oid s),
       events := events s @ [Construct COMPACT, Start COMPACT]\<rparr>"

definition construct_periodic_trigger_thread :: "Storage \<Rightarrow> Storage" where
  "construct_periodic_trigger_thread s =
     s\<lparr>periodic_trigger_thread :=
         Some \<lparr>ptt_oid = next_oid s, ptt_run = Created,
               full_checkpoint_trigger = None, delta_checkpoint_trigger = None,
               compact_segment_trigger = None, optimize_index_trigger = None,
               cleanup_trigger = None\<rparr>,
       next_oid := Suc (next_oid s),
       events := events s @ [Construct PERIODIC_TRIGGER]\<rparr>"

text \<open>The four triggers only the writable mode installs, built from the clamped intervals.\<close>

definition set_writable_triggers :: "Config \<Rightarrow> Storage \<Rightarrow> Storage" where
  "set_writable_triggers cfg s =
     s\<lparr>periodic_trigger_thread :=
         map_option
           (\<lambda>p. p\<lparr>full_checkpoint_trigger :=
                      Some (CheckpointPeriodicTrigger (clamp (FullCheckpointInterval cfg))
                              (get (wal_mgr s)) True),
                    delta_checkpoint_trigger :=
                      Some (CheckpointPeriodicTrigger (clamp (DeltaCheckpointInterval cfg))
                              (get (wal_mgr s)) False),
                    compact_segment_trigger :=
                      Some (CompactSegmentPeriodicTrigger (clamp (CompactInterval cfg))
                              (get (compact_processor s))),
                    optimize_index_trigger :=
                      Some (OptimizeIndexPeriodicTrigger (clamp (OptimizeIndexInterval cfg))
                              (get (compact_processor s)))\<rparr>)
           (periodic_trigger_thread s)\<rparr>"

definition set_cleanup_trigger :: "Config \<Rightarrow> Storage \<Rightarrow> Storage" where
  "set_cleanup_trigger cfg s =
     s\<lparr>periodic_trigger_thread :=
         map_option
           (\<lambda>p. p\<lparr>cleanup_trigger :=
                      Some (CleanupPeriodicTrigger (clamp (CleanupInterval cfg))
                              (map_option bg_oid (bg_processor s))
                              (get (new_catalog s)) (get (txn_mgr s)))\<rparr>)
           (periodic_trigger_thread s)\<rparr>"

text \<open>\<open>bg_processor_->SetCleanupTrigger(periodic_trigger_thread_->cleanup_trigger_)\<close>.\<close>

definition SetCleanupTrigger_bg :: "Storage \<Rightarrow> Storage" where
  "SetCleanupTrigger_bg s =
     log [SetCleanupTrigger]
       (s\<lparr>bg_processor :=
            map_option
              (\<lambda>b. b\<lparr>bg_cleanup_trigger :=
                         Option.bind (periodic_trigger_thread s) cleanup_trigger\<rparr>)
              (bg_processor s)\<rparr>)"

definition start_periodic_trigger_thread :: "Storage \<Rightarrow> Storage" where
  "start_periodic_trigger_thread s =
     log [Start PERIODIC_TRIGGER]
       (s\<lparr>periodic_trigger_thread :=
            map_option (\<lambda>p. p\<lparr>ptt_run := Running\<rparr>) (periodic_trigger_thread s)\<rparr>)"

text \<open>\<open>periodic_trigger_thread_->Stop()\<close> on a thread that is kept (the promotion).\<close>

definition halt_periodic_trigger_thread :: "Storage \<Rightarrow> Storage" where
  "halt_periodic_trigger_thread s =
     log [Stop PERIODIC_TRIGGER]
       (s\<lparr>periodic_trigger_thread :=
            map_option (\<lambda>p. p\<lparr>ptt_run := Stopped\<rparr>) (periodic_trigger_thread s)\<rparr>)"

text \<open>The forced full checkpoint of the writable bring-up.\<close>

definition force_checkpoint :: "Storage \<Rightarrow> Storage" where
  "force_checkpoint s =
     log [BeginTxn ''ForceCheckpointTask'', SubmitForceCheckpoint, WaitForceCheckpoint,
          SetReaderAllowed, CommitTxn] s"

subsection \<open>Stop and reset of a member that is not null\<close>

definition stop_periodic_trigger_thread :: "Storage \<Rightarrow> Storage" where
  "stop_periodic_trigger_thread s =
     (case periodic_trigger_thread s of None \<Rightarrow> s
      | Some p \<Rightarrow>
          log [Stop PERIODIC_TRIGGER, Reset PERIODIC_TRIGGER]
            (s\<lparr>periodic_trigger_thread := None\<rparr>))"

definition stop_compact_processor :: "Storage \<Rightarrow> Storage" where
  "stop_compact_processor s =
     (case compact_processor s of None \<Rightarrow> s
      | Some c \<Rightarrow> log [Stop COMPACT, Reset COMPACT] (s\<lparr>compact_processor := None\<rparr>))"

definition stop_bg_processor :: "Storage \<Rightarrow> Storage" where
  "stop_bg_processor s =
     (case bg_processor s of None \<Rightarrow> s
      | Some b \<Rightarrow> log [Stop BG, Reset BG] (s\<lparr>bg_processor := None\<rparr>))"

definition reset_new_catalog :: "Storage \<Rightarrow> Storage" where
  "reset_new_catalog s =
     (case new_catalog s of None \<Rightarrow> s
      | Some c \<Rightarrow> log [Reset CATALOG] (s\<lparr>new_catalog := None\<rparr>))"

definition reset_memory_index_tracer :: "Storage \<Rightarrow> Storage" where
  "reset_memory_index_tracer s =
     (case memory_index_tracer s of None \<Rightarrow> s
      | Some c \<Rightarrow> log [Reset MEM_INDEX_TRACER] (s\<lparr>memory_index_tracer := None\<rparr>))"

definition stop_wal_mgr :: "Storage \<Rightarrow> Storage" where
  "stop_wal_mgr s =
     (case wal_mgr s of None \<Rightarrow> s
      | Some w \<Rightarrow> log [Stop WAL, Reset WAL] (s\<lparr>wal_mgr := None\<rparr>))"

definition stop_txn_mgr :: "Storage \<Rightarrow> Storage" where
  "stop_txn_mgr s =
     (case txn_mgr s of None \<Rightarrow> s
      | Some t \<Rightarrow> log [Stop TXN, Reset TXN] (s\<lparr>txn_mgr := None\<rparr>))"

definition stop_buffer_mgr :: "Storage \<Rightarrow> Storage" where
  "stop_buffer_mgr s =
     (case buffer_mgr s of None \<Rightarrow> s
      | Some b \<Rightarrow> log [Stop BUFFER, Reset BUFFER] (s\<lparr>buffer_mgr := None\<rparr>))"

definition reset_persistence_manager :: "Storage \<Rightarrow> Storage" where
  "reset_persistence_manager s =
     (case persistence_manager s of None \<Rightarrow> s
      | Some p \<Rightarrow> log [Reset PERSISTENCE] (s\<lparr>persistence_manager := None\<rparr>))"

text \<open>
  The switch on the storage type inside both teardowns: with \<open>kMinio\<close> a processor
  that is not null is stopped and reset and the remote store is uninitialised.
\<close>

definition stop_object_storage_processor :: "Config \<Rightarrow> stmt" where
  "stop_object_storage_processor cfg s =
     (case StorageType cfg of
        kLocal \<Rightarrow> Inr s
      | kMinio \<Rightarrow>
          Inr (case object_storage_processor s of None \<Rightarrow> s
               | Some p \<Rightarrow>
                   log [Stop OBJECT_STORAGE, Reset OBJECT_STORAGE, UnInitRemoteStore]
                     (s\<lparr>object_storage_processor := None, VirtualStore_IsInit := False\<rparr>))
      | kUnsupported \<Rightarrow> Inl (UnrecoverableError ''Unsupported storage type''))"

subsection \<open>Storage::CreateDefaultDB\<close>

text \<open>
  Begins the transaction "create db1", creates "default_db" with the comment
  "Initial startup created" and commits; a status that is not ok is unrecoverable.
\<close>

definition CreateDefaultDB :: "Env \<Rightarrow> stmt" where
  "CreateDefaultDB env =
     seq [deref txn_mgr ''txn_mgr_'',
          exec (log [BeginTxn ''create db1'', SetReaderAllowed,
                     CreateDatabase ''default_db'' ''Initial startup created'']),
          fatal_if (\<lambda>s. \<not> ok (CreateDatabase_status env))
            (''Can't initial 'default_db'' @ [CHR 0x27]),
          exec (log [CommitTxn])]"

subsection \<open>Storage::SetStorageMode, case kUnInitialized\<close>

definition from_UnInitialized :: "StorageMode \<Rightarrow> stmt" where
  "from_UnInitialized target_mode =
     seq [fatal_if (\<lambda>s. target_mode \<noteq> kAdmin)
            ''Attempt to set storage mode from UnInit to UnInit'',
          exec (set_mode target_mode),
          fatal_if (\<lambda>s. wal_mgr s \<noteq> None) ''WAL manager was initialized before.'',
          exec construct_wal_mgr]"

subsection \<open>Storage::SetStorageMode, case kAdmin\<close>

text \<open>
  The switch on the storage type of the bring-up. The result carries \<open>Some status\<close>
  where the code returns that status at once (the remote store failed to initialise:
  the mode is set back and the remote store uninitialised), \<open>None\<close> where it goes on.
\<close>

definition init_remote_store ::
  "Config \<Rightarrow> Env \<Rightarrow> StorageMode \<Rightarrow> Storage \<Rightarrow> abort + Status option \<times> Storage" where
  "init_remote_store cfg env current_mode s =
     (case StorageType cfg of
        kLocal \<Rightarrow> Inr (None, s)
      | kMinio \<Rightarrow>
          if VirtualStore_IsInit s
          then Inl (UnrecoverableError ''remote storage system was initialized before.'')
          else if \<not> ok (InitRemoteStore_status env)
          then Inr (Some (InitRemoteStore_status env),
                    log [InitRemoteStore, UnInitRemoteStore]
                      ((set_mode current_mode s)\<lparr>VirtualStore_IsInit := False\<rparr>))
          else if object_storage_processor s \<noteq> None
          then Inl (UnrecoverableError ''Object storage processor was initialized before.'')
          else Inr (None,
                    construct_object_storage_processor
                      (log [InitRemoteStore] (s\<lparr>VirtualStore_IsInit := True\<rparr>)))
      | kUnsupported \<Rightarrow> Inl (UnrecoverableError ''Unsupported storage type''))"

text \<open>Persistence manager, result cache and buffer manager.\<close>

definition construct_stores :: "Config \<Rightarrow> stmt" where
  "construct_stores cfg =
     seq [cond (\<lambda>s. PersistenceDir cfg \<noteq> [])
            [fatal_if (\<lambda>s. persistence_manager s \<noteq> None)
               ''persistence_manager was initialized before.'',
             exec construct_persistence_manager],
          exec construct_result_cache_manager,
          fatal_if (\<lambda>s. buffer_mgr s \<noteq> None) ''Buffer manager was initialized before.'',
          exec construct_buffer_mgr]"

text \<open>
  \<open>wal_mgr_->ReplayWalFile(target_mode)\<close>: the replay may attach a catalog through
  \<open>Storage::AttachCatalog\<close>.
\<close>

definition ReplayWalFile_call :: "Env \<Rightarrow> StorageMode \<Rightarrow> Storage \<Rightarrow> Storage" where
  "ReplayWalFile_call env target_mode s =
     (let s1 = log [ReplayWalFile target_mode] s
      in if ReplayWalFile_attaches_catalog env
         then assign_new_catalog [get (buffer_mgr s1)] s1 else s1)"

text \<open>
  The bring-up after the buffer manager, reached for the writable target only, in
  three parts. First the replay, the catalog, the background processor, the
  transaction manager and the start of the WAL manager. \<open>BuiltinFunctions::Init\<close>
  registers the functions in the catalog it was given, so it reads through
  \<open>new_catalog_\<close>.
\<close>

definition bring_up_catalog :: "Config \<Rightarrow> Env \<Rightarrow> StorageMode \<Rightarrow> stmt" where
  "bring_up_catalog cfg env target_mode =
     seq [deref wal_mgr ''wal_mgr_'',
          exec (ReplayWalFile_call env target_mode),
          cond (\<lambda>s. ReplayWalFile_ts env = 0) [exec (assign_new_catalog [])],
          cond (\<lambda>s. clamp (CompactInterval cfg) > 0 \<and> current_storage_mode s = kWritable)
            [deref new_catalog ''new_catalog_'',
             exec (log [CatalogCall ''InitCompactionAlg''])],
          deref new_catalog ''new_catalog_'',
          exec (log [CatalogCall ''BuiltinFunctions::Init'']),
          fatal_if (\<lambda>s. bg_processor s \<noteq> None) ''Background processor was initialized before.'',
          exec construct_bg_processor,
          fatal_if (\<lambda>s. txn_mgr s \<noteq> None) ''Transaction manager was initialized before.'',
          exec construct_txn_mgr,
          deref wal_mgr ''wal_mgr_'',
          exec start_wal_mgr]"

text \<open>
  Last the memory index tracer, the processors, the recovery of the memory indexes,
  the periodic trigger thread with its triggers and the forced checkpoint.
\<close>

definition bring_up_processors :: "Config \<Rightarrow> StorageMode \<Rightarrow> stmt" where
  "bring_up_processors cfg target_mode =
     seq [fatal_if (\<lambda>s. memory_index_tracer s \<noteq> None)
            ''Memory index tracer was initialized before.'',
          exec construct_memory_index_tracer,
          deref bg_processor ''bg_processor_'',
          exec start_bg_processor,
          cond (\<lambda>s. target_mode = kWritable)
            [fatal_if (\<lambda>s. compact_processor s \<noteq> None)
               ''compact processor was initialized before.'',
             exec construct_compact_processor],
          deref new_catalog ''new_catalog_'',
          exec (log [CatalogCall ''StartMemoryIndexCommit'', CatalogCall ''MemIndexRecover'']),
          fatal_if (\<lambda>s. periodic_trigger_thread s \<noteq> None)
            ''periodic trigger was initialized before.'',
          exec construct_periodic_trigger_thread,
          cond (\<lambda>s. target_mode = kWritable) [exec (set_writable_triggers cfg)],
          exec (set_cleanup_trigger cfg),
          deref bg_processor ''bg_processor_'',
          exec SetCleanupTrigger_bg,
          cond (\<lambda>s. target_mode = kWritable)
            [deref txn_mgr ''txn_mgr_'', exec force_checkpoint],
          cond (\<lambda>s. target_mode \<noteq> kWritable)
            [exec (\<lambda>s. s\<lparr>reader_init_phase := kPhase2\<rparr>)],
          exec start_periodic_trigger_thread]"

text \<open>Between the two, the default database where the replay found nothing.\<close>

definition bring_up :: "Config \<Rightarrow> Env \<Rightarrow> StorageMode \<Rightarrow> stmt" where
  "bring_up cfg env target_mode =
     seq [bring_up_catalog cfg env target_mode,
          cond (\<lambda>s. ReplayWalFile_ts env = 0 \<and> target_mode = kWritable) [CreateDefaultDB env],
          bring_up_processors cfg target_mode]"

definition from_Admin ::
  "Config \<Rightarrow> Env \<Rightarrow> StorageMode \<Rightarrow> StorageMode \<Rightarrow> Storage \<Rightarrow> abort + Status \<times> Storage" where
  "from_Admin cfg env current_mode target_mode s =
     (if target_mode = kAdmin
      then Inl (UnrecoverableError ''Attempt to set storage mode from Admin to Admin'')
      else if target_mode = kUnInitialized then Inr (OK, reset_wal_mgr s)
      else
        (case init_remote_store cfg env current_mode (set_mode target_mode s) of
           Inl e \<Rightarrow> Inl e
         | Inr (Some status, s1) \<Rightarrow> Inr (status, s1)
         | Inr (None, s1) \<Rightarrow>
             (case construct_stores cfg s1 of
                Inl e \<Rightarrow> Inl e
              | Inr s2 \<Rightarrow>
                  if current_storage_mode s2 = kReadable
                  then Inr (OK, s2\<lparr>reader_init_phase := kPhase1\<rparr>)
                  else returning OK (bring_up cfg env target_mode s2))))"

subsection \<open>Storage::SetStorageMode, cases kReadable and kWritable\<close>

text \<open>
  In the teardown of the readable mode the test of the reader phase stands inside the
  test that the member is not null: \<open>if (p != nullptr) { if (phase != kPhase2) fatal; ... }\<close>.
\<close>

definition from_Readable :: "Config \<Rightarrow> StorageMode \<Rightarrow> stmt" where
  "from_Readable cfg target_mode =
     seq [fatal_if (\<lambda>s. target_mode = kReadable)
            ''Attempt to set storage mode from Readable to Readable'',
          cond (\<lambda>s. target_mode = kUnInitialized \<or> target_mode = kAdmin)
            [fatal_if (\<lambda>s. periodic_trigger_thread s \<noteq> None \<and> reader_init_phase s \<noteq> kPhase2)
               ''Error reader init phase'',
             exec stop_periodic_trigger_thread,
             fatal_if (\<lambda>s. compact_processor s \<noteq> None)
               ''Compact processor shouldn't be set before'',
             fatal_if (\<lambda>s. bg_processor s \<noteq> None \<and> reader_init_phase s \<noteq> kPhase2)
               ''Error reader init phase'',
             exec stop_bg_processor,
             exec reset_new_catalog,
             exec reset_memory_index_tracer,
             exec stop_wal_mgr,
             stop_object_storage_processor cfg,
             fatal_if (\<lambda>s. txn_mgr s \<noteq> None \<and> reader_init_phase s \<noteq> kPhase2)
               ''Error reader init phase'',
             exec stop_txn_mgr,
             exec stop_buffer_mgr,
             exec reset_persistence_manager,
             cond (\<lambda>s. target_mode = kAdmin) [exec construct_wal_mgr]],
          cond (\<lambda>s. target_mode = kWritable)
            [fatal_if (\<lambda>s. compact_processor s \<noteq> None)
               ''compact processor was initialized before.'',
             exec construct_compact_processor,
             deref periodic_trigger_thread ''periodic_trigger_thread_'',
             exec halt_periodic_trigger_thread,
             exec (set_writable_triggers cfg),
             exec start_periodic_trigger_thread],
          exec (set_mode target_mode)]"

definition from_Writable :: "Config \<Rightarrow> StorageMode \<Rightarrow> stmt" where
  "from_Writable cfg target_mode =
     seq [fatal_if (\<lambda>s. target_mode = kWritable)
            ''Attempt to set storage mode from Writable to Writable'',
          cond (\<lambda>s. target_mode = kUnInitialized \<or> target_mode = kAdmin)
            [exec stop_periodic_trigger_thread,
             exec stop_compact_processor,
             exec stop_bg_processor,
             exec reset_new_catalog,
             exec reset_memory_index_tracer,
             exec stop_wal_mgr,
             stop_object_storage_processor cfg,
             exec stop_txn_mgr,
             exec stop_buffer_mgr,
             exec reset_persistence_manager,
             cond (\<lambda>s. target_mode = kAdmin) [exec construct_wal_mgr]],
          cond (\<lambda>s. target_mode = kReadable)
            [exec stop_periodic_trigger_thread,
             exec stop_compact_processor,
             exec construct_periodic_trigger_thread,
             exec (set_cleanup_trigger cfg),
             deref bg_processor ''bg_processor_'',
             exec SetCleanupTrigger_bg,
             exec start_periodic_trigger_thread],
          exec (set_mode target_mode)]"

subsection \<open>Storage::SetStorageMode\<close>

definition SetStorageMode ::
  "Config \<Rightarrow> Env \<Rightarrow> StorageMode \<Rightarrow> Storage \<Rightarrow> abort + Status \<times> Storage" where
  "SetStorageMode cfg env target_mode s =
     (let current_mode = GetStorageMode s
      in if current_mode = target_mode then Inr (OK, s)
         else
           (let s0 = construct_cleanup_info_tracer s
            in case current_mode of
                 kUnInitialized \<Rightarrow> returning OK (from_UnInitialized target_mode s0)
               | kAdmin \<Rightarrow> from_Admin cfg env current_mode target_mode s0
               | kReadable \<Rightarrow> returning OK (from_Readable cfg target_mode s0)
               | kWritable \<Rightarrow> returning OK (from_Writable cfg target_mode s0)))"

subsection \<open>The reader bootstrap and the catalog entry points\<close>

text \<open>
  The timestamp is handed on to the transaction manager and to the recovery of the
  memory indexes; the controller does not look at it.
\<close>

definition reader_bootstrap :: "Config \<Rightarrow> stmt" where
  "reader_bootstrap cfg =
     seq [fatal_if (\<lambda>s. current_storage_mode s \<noteq> kReadable)
            ''Expect current storage mode is READER'',
          deref new_catalog ''new_catalog_'',
          exec (log [CatalogCall ''BuiltinFunctions::Init'']),
          fatal_if (\<lambda>s. bg_processor s \<noteq> None)
            ''Background processor was initialized before.'',
          exec construct_bg_processor,
          fatal_if (\<lambda>s. txn_mgr s \<noteq> None) ''Transaction manager was initialized before.'',
          exec construct_txn_mgr,
          deref wal_mgr ''wal_mgr_'',
          exec start_wal_mgr,
          fatal_if (\<lambda>s. memory_index_tracer s \<noteq> None)
            ''Memory index tracer was initialized before.'',
          exec construct_memory_index_tracer,
          deref new_catalog ''new_catalog_'',
          exec (log [CatalogCall ''StartMemoryIndexCommit'',
                     CatalogCall ''MemIndexRecover'']),
          exec start_bg_processor,
          fatal_if (\<lambda>s. periodic_trigger_thread s \<noteq> None)
            ''periodic trigger was initialized before.'',
          exec construct_periodic_trigger_thread,
          exec (set_cleanup_trigger cfg),
          exec SetCleanupTrigger_bg,
          exec start_periodic_trigger_thread,
          exec (\<lambda>s. s\<lparr>reader_init_phase := kPhase2\<rparr>)]"

definition SetReaderStorageContinue ::
  "Config \<Rightarrow> TxnTimeStamp \<Rightarrow> Storage \<Rightarrow> abort + Status \<times> Storage" where
  "SetReaderStorageContinue cfg system_start_ts s = returning OK (reader_bootstrap cfg s)"

definition AttachCatalog :: stmt where
  "AttachCatalog = (\<lambda>s. Inr (assign_new_catalog [get (buffer_mgr s)] s))"

definition LoadFullCheckpoint :: stmt where
  "LoadFullCheckpoint =
     seq [fatal_if (\<lambda>s. new_catalog s \<noteq> None) ''Catalog was already initialized before.'',
          exec (assign_new_catalog [])]"

definition AttachDeltaCheckpoint :: stmt where
  "AttachDeltaCheckpoint =
     seq [deref new_catalog ''new_catalog_'',
          exec (log [CatalogCall ''AttachDeltaCheckpoint''])]"

subsection \<open>Sequences of calls\<close>

text \<open>
  A call of the public interface with what the collaborators answer during it. The
  catalog entry points belong to the reader bootstrap (they are called between the
  bring-up of the readable mode and \<open>SetReaderStorageContinue\<close>), so a sequence is
  permitted when it issues them in the readable mode only. A sequence ends where a
  call aborts.
\<close>

datatype call =
    Call_SetStorageMode Env StorageMode
  | Call_SetReaderStorageContinue TxnTimeStamp
  | Call_AttachCatalog
  | Call_LoadFullCheckpoint
  | Call_AttachDeltaCheckpoint

fun step :: "Config \<Rightarrow> call \<Rightarrow> Storage \<Rightarrow> Storage option" where
  "step cfg (Call_SetStorageMode env target_mode) s =
     (case SetStorageMode cfg env target_mode s of Inl e \<Rightarrow> None | Inr (st, s') \<Rightarrow> Some s')"
| "step cfg (Call_SetReaderStorageContinue ts) s =
     (case SetReaderStorageContinue cfg ts s of Inl e \<Rightarrow> None | Inr (st, s') \<Rightarrow> Some s')"
| "step cfg Call_AttachCatalog s =
     (if current_storage_mode s \<noteq> kReadable then None
      else case AttachCatalog s of Inl e \<Rightarrow> None | Inr s' \<Rightarrow> Some s')"
| "step cfg Call_LoadFullCheckpoint s =
     (if current_storage_mode s \<noteq> kReadable then None
      else case LoadFullCheckpoint s of Inl e \<Rightarrow> None | Inr s' \<Rightarrow> Some s')"
| "step cfg Call_AttachDeltaCheckpoint s =
     (if current_storage_mode s \<noteq> kReadable then None
      else case AttachDeltaCheckpoint s of Inl e \<Rightarrow> None | Inr s' \<Rightarrow> Some s')"

fun run :: "Config \<Rightarrow> call list \<Rightarrow> Storage \<Rightarrow> Storage option" where
  "run cfg [] s = Some s"
| "run cfg (c # cs) s = (case step cfg c s of None \<Rightarrow> None | Some s' \<Rightarrow> run cfg cs s')"

subsection \<open>What a call emits, and orders on it\<close>

text \<open>The calls made between two states: the log of the later one without the earlier log.\<close>

definition emitted :: "Storage \<Rightarrow> Storage \<Rightarrow> event list" where
  "emitted s s' = drop (length (events s)) (events s')"

text \<open>\<open>precedes a b es\<close>: no \<open>a\<close> stands after a \<open>b\<close> in \<open>es\<close>.\<close>

fun precedes :: "event \<Rightarrow> event \<Rightarrow> event list \<Rightarrow> bool" where
  "precedes a b [] = True"
| "precedes a b (e # es) = ((e = b \<longrightarrow> a \<notin> set es) \<and> precedes a b es)"

fun is_Reset :: "event \<Rightarrow> bool" where
  "is_Reset (Reset h) = True"
| "is_Reset e = False"

fun is_Stop :: "event \<Rightarrow> bool" where
  "is_Stop (Stop h) = True"
| "is_Stop e = False"

definition drops :: "event list \<Rightarrow> nat" where
  "drops es = length (filter is_Reset es)"

text \<open>
  The order the specification asks of a teardown: the periodic trigger thread stops
  before each processor stops, and each processor stops before each manager is dropped.
\<close>

definition teardown_order_claimed :: "event list \<Rightarrow> bool" where
  "teardown_order_claimed es \<longleftrightarrow>
     list_all (\<lambda>x. precedes (Stop PERIODIC_TRIGGER) x es)
       [Stop BG, Stop COMPACT, Stop OBJECT_STORAGE] \<and>
     list_all (\<lambda>x. list_all (\<lambda>y. precedes x y es)
                 [Reset CATALOG, Reset TXN, Reset WAL, Reset BUFFER])
       [Stop BG, Stop COMPACT, Stop OBJECT_STORAGE]"

text \<open>
  The order the code keeps: as above for the background and the compaction processor;
  the object storage processor stops before the transaction and the buffer manager
  are dropped, and after the catalog and the WAL manager are.
\<close>

definition teardown_order :: "event list \<Rightarrow> bool" where
  "teardown_order es \<longleftrightarrow>
     list_all (\<lambda>x. precedes (Stop PERIODIC_TRIGGER) x es)
       [Stop BG, Stop COMPACT, Stop OBJECT_STORAGE] \<and>
     list_all (\<lambda>x. list_all (\<lambda>y. precedes x y es)
                 [Reset CATALOG, Reset TXN, Reset WAL, Reset BUFFER])
       [Stop BG, Stop COMPACT] \<and>
     list_all (\<lambda>y. precedes (Stop OBJECT_STORAGE) y es) [Reset TXN, Reset BUFFER] \<and>
     list_all (\<lambda>y. precedes y (Stop OBJECT_STORAGE) es) [Reset CATALOG, Reset WAL]"

subsection \<open>Observable state\<close>

text \<open>
  The state without the allocation counter and the log, and with the cleanup tracer
  reduced to its presence: every call that is not the no-op replaces the tracer by a
  fresh one before it looks at the modes.
\<close>

definition observable :: "Storage \<Rightarrow> Storage" where
  "observable s =
     s\<lparr>cleanup_info_tracer :=
         map_option (\<lambda>c. \<lparr>oid = 0, run = Created, refs = []\<rparr>) (cleanup_info_tracer s),
       next_oid := 0, events := []\<rparr>"

subsection \<open>Properties kept by every statement of a sequence\<close>

definition preserves :: "(Storage \<Rightarrow> bool) \<Rightarrow> stmt \<Rightarrow> bool" where
  "preserves P f \<longleftrightarrow> (\<forall>s s'. P s \<longrightarrow> f s = Inr s' \<longrightarrow> P s')"

text \<open>
  \<open>grown p es0 es\<close>: the log \<open>es\<close> is \<open>es0\<close> followed by calls none of which
  satisfies \<open>p\<close>.
\<close>

definition grown :: "(event \<Rightarrow> bool) \<Rightarrow> event list \<Rightarrow> event list \<Rightarrow> bool" where
  "grown p es0 es \<longleftrightarrow>
     take (length es0) es = es0 \<and> \<not> list_ex p (drop (length es0) es)"

fun is_CreateDatabase :: "event \<Rightarrow> bool" where
  "is_CreateDatabase (CreateDatabase name comment) = True"
| "is_CreateDatabase e = False"

text \<open>The calls of \<open>Storage::CreateDefaultDB\<close> when the creation succeeds.\<close>

definition default_db_calls :: "event list" where
  "default_db_calls =
     [BeginTxn ''create db1'', SetReaderAllowed,
      CreateDatabase ''default_db'' ''Initial startup created'', CommitTxn]"

subsection \<open>The invariant of the states a permitted sequence reaches\<close>

definition consistent :: "Config \<Rightarrow> Storage \<Rightarrow> bool" where
  "consistent cfg s \<longleftrightarrow>
     (object_storage_processor s \<noteq> None \<longrightarrow> StorageType cfg = kMinio) \<and>
     (VirtualStore_IsInit s \<longleftrightarrow> object_storage_processor s \<noteq> None) \<and>
     (current_storage_mode s = kUnInitialized \<longrightarrow> wal_mgr s = None) \<and>
     (current_storage_mode s = kUnInitialized \<or> current_storage_mode s = kAdmin \<longrightarrow>
        new_catalog s = None \<and> txn_mgr s = None \<and> buffer_mgr s = None \<and>
        persistence_manager s = None \<and> object_storage_processor s = None \<and>
        bg_processor s = None \<and> memory_index_tracer s = None \<and>
        periodic_trigger_thread s = None) \<and>
     (current_storage_mode s \<noteq> kUnInitialized \<longrightarrow> cleanup_info_tracer s \<noteq> None) \<and>
     (current_storage_mode s \<noteq> kWritable \<longrightarrow> compact_processor s = None) \<and>
     (current_storage_mode s = kWritable \<longrightarrow>
        periodic_trigger_thread s \<noteq> None \<and> compact_processor s \<noteq> None) \<and>
     (current_storage_mode s = kReadable \<longrightarrow> buffer_mgr s \<noteq> None) \<and>
     (periodic_trigger_thread s \<noteq> None \<longrightarrow>
        bg_processor s \<noteq> None \<and> new_catalog s \<noteq> None \<and> txn_mgr s \<noteq> None \<and>
        wal_mgr s \<noteq> None \<and> buffer_mgr s \<noteq> None) \<and>
     (current_storage_mode s = kReadable \<and> reader_init_phase s = kPhase2 \<longrightarrow>
        periodic_trigger_thread s \<noteq> None)"



subsection \<open>Concrete configurations\<close>

definition cfg_local :: Config where
  "cfg_local =
     \<lparr>StorageType = kLocal, PersistenceDir = ''/var/infinity/persistence'',
      CompactInterval = 10, OptimizeIndexInterval = 10, CleanupInterval = 10,
      FullCheckpointInterval = 30, DeltaCheckpointInterval = 5, ResultCache = ''on''\<rparr>"

definition cfg_remote :: Config where
  "cfg_remote = cfg_local\<lparr>StorageType := kMinio\<rparr>"

text \<open>No earlier state on disk: the replay returns 0 and attaches nothing.\<close>

definition env_fresh :: Env where
  "env_fresh =
     \<lparr>InitRemoteStore_status = OK, ReplayWalFile_ts = 0,
      ReplayWalFile_attaches_catalog = False, CreateDatabase_status = OK\<rparr>"

definition env_remote_down :: Env where
  "env_remote_down = env_fresh\<lparr>InitRemoteStore_status := Error ''connection refused''\<rparr>"

section \<open>Simplification of sequences\<close>

declare seq.simps(2) [simp del]

lemma seq_exec [simp]: "seq (exec f # fs) s = seq fs (f s)"
  by (simp add: seq.simps(2) exec_def)
lemma seq_fatal_if [simp]:
  "seq (fatal_if c m # fs) s = (if c s then Inl (UnrecoverableError m) else seq fs s)"
  by (simp add: seq.simps(2) fatal_if_def)
lemma seq_deref [simp]:
  "seq (deref h n # fs) s = (if h s = None then Inl (NullPointer n) else seq fs s)"
  by (simp add: seq.simps(2) deref_def)
lemma seq_append: "seq (gs @ fs) s = (case seq gs s of Inl e \<Rightarrow> Inl e | Inr s' \<Rightarrow> seq fs s')"
  by (induction gs arbitrary: s) (simp_all add: seq.simps(2) split: sum.splits)
lemma seq_cond [simp]:
  "seq (cond c gs # fs) s = (if c s then seq (gs @ fs) s else seq fs s)"
  by (simp add: seq.simps(2) cond_def seq_append)
lemma seq_seq [simp]: "seq (seq gs # fs) s = seq (gs @ fs) s"
  by (simp add: seq.simps(2) seq_append)
lemma seq_stop_object_storage_processor [simp]:
  "seq (stop_object_storage_processor cfg # fs) s =
     (case StorageType cfg of
        kLocal \<Rightarrow> seq fs s
      | kMinio \<Rightarrow> seq fs (s\<lparr>object_storage_processor := None,
             VirtualStore_IsInit := VirtualStore_IsInit s \<and> object_storage_processor s = None,
             events := events s @ present (object_storage_processor s) [Stop OBJECT_STORAGE, Reset OBJECT_STORAGE, UnInitRemoteStore]\<rparr>)
      | kUnsupported \<Rightarrow> Inl (UnrecoverableError ''Unsupported storage type''))"
  by (cases s) (simp add: seq.simps(2) stop_object_storage_processor_def log_def present_def split: StorageType.splits option.splits)

lemma stop_periodic_trigger_thread_nf:
  "stop_periodic_trigger_thread s = s\<lparr>periodic_trigger_thread := None,
      events := events s @ present (periodic_trigger_thread s) [Stop PERIODIC_TRIGGER, Reset PERIODIC_TRIGGER]\<rparr>"
  by (cases s) (simp add: stop_periodic_trigger_thread_def log_def present_def split: option.splits)
lemma stop_compact_processor_nf:
  "stop_compact_processor s = s\<lparr>compact_processor := None,
      events := events s @ present (compact_processor s) [Stop COMPACT, Reset COMPACT]\<rparr>"
  by (cases s) (simp add: stop_compact_processor_def log_def present_def split: option.splits)
lemma stop_bg_processor_nf:
  "stop_bg_processor s = s\<lparr>bg_processor := None,
      events := events s @ present (bg_processor s) [Stop BG, Reset BG]\<rparr>"
  by (cases s) (simp add: stop_bg_processor_def log_def present_def split: option.splits)
lemma reset_new_catalog_nf:
  "reset_new_catalog s = s\<lparr>new_catalog := None,
      events := events s @ present (new_catalog s) [Reset CATALOG]\<rparr>"
  by (cases s) (simp add: reset_new_catalog_def log_def present_def split: option.splits)
lemma reset_memory_index_tracer_nf:
  "reset_memory_index_tracer s = s\<lparr>memory_index_tracer := None,
      events := events s @ present (memory_index_tracer s) [Reset MEM_INDEX_TRACER]\<rparr>"
  by (cases s) (simp add: reset_memory_index_tracer_def log_def present_def split: option.splits)
lemma stop_wal_mgr_nf:
  "stop_wal_mgr s = s\<lparr>wal_mgr := None,
      events := events s @ present (wal_mgr s) [Stop WAL, Reset WAL]\<rparr>"
  by (cases s) (simp add: stop_wal_mgr_def log_def present_def split: option.splits)
lemma reset_wal_mgr_nf:
  "reset_wal_mgr s = s\<lparr>wal_mgr := None,
      events := events s @ present (wal_mgr s) [Reset WAL]\<rparr>"
  by (cases s) (simp add: reset_wal_mgr_def log_def present_def split: option.splits)
lemma stop_txn_mgr_nf:
  "stop_txn_mgr s = s\<lparr>txn_mgr := None,
      events := events s @ present (txn_mgr s) [Stop TXN, Reset TXN]\<rparr>"
  by (cases s) (simp add: stop_txn_mgr_def log_def present_def split: option.splits)
lemma stop_buffer_mgr_nf:
  "stop_buffer_mgr s = s\<lparr>buffer_mgr := None,
      events := events s @ present (buffer_mgr s) [Stop BUFFER, Reset BUFFER]\<rparr>"
  by (cases s) (simp add: stop_buffer_mgr_def log_def present_def split: option.splits)
lemma reset_persistence_manager_nf:
  "reset_persistence_manager s = s\<lparr>persistence_manager := None,
      events := events s @ present (persistence_manager s) [Reset PERSISTENCE]\<rparr>"
  by (cases s) (simp add: reset_persistence_manager_def log_def present_def split: option.splits)
lemma construct_result_cache_manager_nf:
  "construct_result_cache_manager s =
     s\<lparr>result_cache_manager := Some (case result_cache_manager s of None \<Rightarrow> MakeUnique s [] | Some r \<Rightarrow> r),
       next_oid := (case result_cache_manager s of None \<Rightarrow> Suc (next_oid s) | Some r \<Rightarrow> next_oid s),
       events := events s @ (case result_cache_manager s of None \<Rightarrow> [Construct RESULT_CACHE] | Some r \<Rightarrow> [])\<rparr>"
  by (cases s) (simp add: construct_result_cache_manager_def split: option.splits)

lemmas teardown_nf = stop_periodic_trigger_thread_nf stop_compact_processor_nf stop_bg_processor_nf
  reset_new_catalog_nf reset_memory_index_tracer_nf stop_wal_mgr_nf reset_wal_mgr_nf stop_txn_mgr_nf
  stop_buffer_mgr_nf reset_persistence_manager_nf

lemmas construct_defs = construct_cleanup_info_tracer_def construct_wal_mgr_def
  construct_object_storage_processor_def construct_persistence_manager_def
  construct_result_cache_manager_nf construct_buffer_mgr_def assign_new_catalog_def
  construct_bg_processor_def start_bg_processor_def construct_txn_mgr_def start_wal_mgr_def
  construct_memory_index_tracer_def construct_compact_processor_def
  construct_periodic_trigger_thread_def set_writable_triggers_def set_cleanup_trigger_def
  SetCleanupTrigger_bg_def start_periodic_trigger_thread_def halt_periodic_trigger_thread_def
  force_checkpoint_def set_mode_def log_def ReplayWalFile_call_def MakeUnique_def get_def

section \<open>Statements that keep a property\<close>

lemma preserves_seq_Nil: "preserves P (seq [])"
  by (simp add: preserves_def)

lemma preserves_seq_Cons:
  assumes "preserves P f" and "preserves P (seq fs)"
  shows "preserves P (seq (f # fs))"
  unfolding preserves_def
proof (intro allI impI)
  fix s s'
  assume p: "P s" and r: "seq (f # fs) s = Inr s'"
  from r obtain s1 where f: "f s = Inr s1" and fs: "seq fs s1 = Inr s'"
    by (cases "f s") (simp_all add: seq.simps(2))
  from assms(1) p f have "P s1" unfolding preserves_def by blast
  with assms(2) fs show "P s'" unfolding preserves_def by blast
qed

lemma preserves_cond: "preserves P (seq fs) \<Longrightarrow> preserves P (cond c fs)"
  unfolding preserves_def cond_def by (metis sum.inject(2))

lemma preserves_fatal_if: "preserves P (fatal_if c m)"
  unfolding preserves_def fatal_if_def by (metis sum.inject(2) sum.distinct(1))

lemma preserves_deref: "preserves P (deref h n)"
  unfolding preserves_def deref_def by (metis sum.inject(2) sum.distinct(1))

lemma preserves_exec: "(\<And>s. P s \<Longrightarrow> P (f s)) \<Longrightarrow> preserves P (exec f)"
  unfolding preserves_def exec_def by (metis sum.inject(2))

lemmas preserves_intros = preserves_seq_Nil preserves_seq_Cons preserves_cond preserves_fatal_if
  preserves_deref preserves_exec

lemma preservesD: "preserves P f \<Longrightarrow> f s = Inr s' \<Longrightarrow> P s \<Longrightarrow> P s'"
  unfolding preserves_def by blast

section \<open>The paths through the case kAdmin\<close>

lemma from_Admin_cases:
  assumes "from_Admin cfg env m t s = Inr (st, s')"
  obtains
    (to_uninit) "t = kUnInitialized" "st = OK" "s' = reset_wal_mgr s"
  | (remote_failed) "t = kReadable \<or> t = kWritable"
      "init_remote_store cfg env m (set_mode t s) = Inr (Some st, s')"
  | (to_readable) s1 s2 where "t = kReadable \<or> t = kWritable"
      "init_remote_store cfg env m (set_mode t s) = Inr (None, s1)"
      "construct_stores cfg s1 = Inr s2" "current_storage_mode s2 = kReadable"
      "st = OK" "s' = s2\<lparr>reader_init_phase := kPhase1\<rparr>"
  | (to_writable) s1 s2 where "t = kReadable \<or> t = kWritable"
      "init_remote_store cfg env m (set_mode t s) = Inr (None, s1)"
      "construct_stores cfg s1 = Inr s2" "current_storage_mode s2 \<noteq> kReadable"
      "st = OK" "bring_up cfg env t s2 = Inr s'"
proof (cases "t = kAdmin \<or> t = kUnInitialized")
  case True
  with assms to_uninit show ?thesis
    by (auto simp: from_Admin_def split: if_splits)
next
  case False
  then have t: "t = kReadable \<or> t = kWritable" by (cases t) simp_all
  from assms False obtain r s1 where i: "init_remote_store cfg env m (set_mode t s) = Inr (r, s1)"
    by (auto simp: from_Admin_def split: sum.splits)
  show ?thesis
  proof (cases r)
    case (Some status)
    with assms False i remote_failed t show ?thesis by (simp add: from_Admin_def)
  next
    case None
    with assms False i obtain s2 where c: "construct_stores cfg s1 = Inr s2"
      by (auto simp: from_Admin_def split: sum.splits)
    show ?thesis
    proof (cases "current_storage_mode s2 = kReadable")
      case True
      with assms False i None c to_readable t show ?thesis by (simp add: from_Admin_def)
    next
      case notR: False
      with assms False i None c to_writable t show ?thesis
        by (auto simp: from_Admin_def returning_def split: sum.splits)
    qed
  qed
qed

section \<open>The invariant is kept\<close>

lemma consistent_init: "consistent cfg Storage_init"
  by (simp add: consistent_def Storage_init_def)

lemma consistent_from_UnInitialized:
  "consistent cfg s \<Longrightarrow> current_storage_mode s = kUnInitialized \<Longrightarrow>
   SetStorageMode cfg env t s = Inr (st, s') \<Longrightarrow> consistent cfg s'"
  by (cases t)
    (clarsimp simp add: SetStorageMode_def GetStorageMode_def Let_def returning_def from_UnInitialized_def
       construct_defs consistent_def split: if_splits)+

lemma consistent_bring_up:
  assumes "bring_up cfg env t s2 = Inr s'" and "current_storage_mode s2 = kWritable"
    and "t = kWritable"
    and "object_storage_processor s2 \<noteq> None \<longrightarrow> StorageType cfg = kMinio"
    and "VirtualStore_IsInit s2 \<longleftrightarrow> object_storage_processor s2 \<noteq> None"
    and "cleanup_info_tracer s2 \<noteq> None" and "buffer_mgr s2 \<noteq> None"
  shows "consistent cfg s'"
  using assms
  by (clarsimp simp add: bring_up_def bring_up_catalog_def bring_up_processors_def
      CreateDefaultDB_def construct_defs Let_def consistent_def split: if_splits)

lemma stores_constructed:
  assumes "init_remote_store cfg env m (set_mode t s) = Inr (None, s1)"
    and "construct_stores cfg s1 = Inr s2"
    and "object_storage_processor s = None" and "\<not> VirtualStore_IsInit s"
    and "cleanup_info_tracer s \<noteq> None"
  shows "current_storage_mode s2 = t \<and>
         (object_storage_processor s2 \<noteq> None \<longrightarrow> StorageType cfg = kMinio) \<and>
         (VirtualStore_IsInit s2 \<longleftrightarrow> object_storage_processor s2 \<noteq> None) \<and>
         cleanup_info_tracer s2 \<noteq> None \<and> buffer_mgr s2 \<noteq> None \<and>
         reader_init_phase s2 = reader_init_phase s \<and>
         wal_mgr s2 = wal_mgr s \<and> new_catalog s2 = new_catalog s \<and> txn_mgr s2 = txn_mgr s \<and>
         bg_processor s2 = bg_processor s \<and> compact_processor s2 = compact_processor s \<and>
         memory_index_tracer s2 = memory_index_tracer s \<and>
         periodic_trigger_thread s2 = periodic_trigger_thread s \<and>
         result_cache_manager s2 \<noteq> None"
  using assms
  by (cases "StorageType cfg")
    (clarsimp simp add: init_remote_store_def construct_stores_def construct_defs
      split: if_splits option.splits)+

lemma consistent_from_Admin:
  assumes c: "consistent cfg s" and m: "current_storage_mode s = kAdmin"
    and r: "SetStorageMode cfg env t s = Inr (st, s')"
  shows "consistent cfg s'"
proof (cases "t = kAdmin")
  case True
  with assms show ?thesis by (simp add: SetStorageMode_def GetStorageMode_def)
next
  case False
  let ?s0 = "construct_cleanup_info_tracer s"
  from r m False have f: "from_Admin cfg env kAdmin t ?s0 = Inr (st, s')"
    by (simp add: SetStorageMode_def GetStorageMode_def Let_def)
  have c0: "object_storage_processor ?s0 = None" "\<not> VirtualStore_IsInit ?s0"
    "cleanup_info_tracer ?s0 \<noteq> None"
    using c m by (simp_all add: consistent_def construct_defs)
  from f show ?thesis
  proof (cases rule: from_Admin_cases)
    case to_uninit
    with c m show ?thesis
      by (simp add: consistent_def teardown_nf construct_defs)
  next
    case remote_failed
    with c m show ?thesis
      by (cases "StorageType cfg")
        (clarsimp simp add: init_remote_store_def consistent_def construct_defs
          split: if_splits)+
  next
    case (to_readable s1 s2)
    from stores_constructed [OF to_readable(2,3) c0] to_readable(4,6) c m
    show ?thesis by (simp add: consistent_def construct_defs)
  next
    case (to_writable s1 s2)
    from stores_constructed [OF to_writable(2,3) c0] to_writable(1,4)
    have s2: "current_storage_mode s2 = kWritable" "t = kWritable"
      "object_storage_processor s2 \<noteq> None \<longrightarrow> StorageType cfg = kMinio"
      "VirtualStore_IsInit s2 \<longleftrightarrow> object_storage_processor s2 \<noteq> None"
      "cleanup_info_tracer s2 \<noteq> None" "buffer_mgr s2 \<noteq> None"
      by auto
    from consistent_bring_up [OF to_writable(6) s2] show ?thesis .
  qed
qed

lemma consistent_from_Readable:
  "consistent cfg s \<Longrightarrow> current_storage_mode s = kReadable \<Longrightarrow>
   SetStorageMode cfg env t s = Inr (st, s') \<Longrightarrow> consistent cfg s'"
  by (cases t; cases "StorageType cfg")
   (clarsimp simp add: SetStorageMode_def GetStorageMode_def Let_def returning_def from_Readable_def
      construct_defs teardown_nf consistent_def split: if_splits)+

lemma consistent_from_Writable:
  "consistent cfg s \<Longrightarrow> current_storage_mode s = kWritable \<Longrightarrow>
   SetStorageMode cfg env t s = Inr (st, s') \<Longrightarrow> consistent cfg s'"
  by (cases t; cases "StorageType cfg")
   (clarsimp simp add: SetStorageMode_def GetStorageMode_def Let_def returning_def from_Writable_def
      construct_defs teardown_nf consistent_def split: if_splits)+

lemma consistent_SetStorageMode:
  "consistent cfg s \<Longrightarrow> SetStorageMode cfg env t s = Inr (st, s') \<Longrightarrow> consistent cfg s'"
  by (cases "current_storage_mode s")
    (blast intro: consistent_from_UnInitialized consistent_from_Admin
       consistent_from_Readable consistent_from_Writable)+

lemma consistent_SetReaderStorageContinue:
  "consistent cfg s \<Longrightarrow> SetReaderStorageContinue cfg ts s = Inr (st, s') \<Longrightarrow> consistent cfg s'"
  by (clarsimp simp add: SetReaderStorageContinue_def reader_bootstrap_def returning_def
      construct_defs consistent_def split: if_splits sum.splits)

lemma consistent_step: "consistent cfg s \<Longrightarrow> step cfg c s = Some s' \<Longrightarrow> consistent cfg s'"
proof (cases c)
  case (Call_SetStorageMode env t)
  assume "consistent cfg s" "step cfg c s = Some s'"
  with Call_SetStorageMode show ?thesis
    by (auto split: sum.splits dest: consistent_SetStorageMode)
next
  case (Call_SetReaderStorageContinue ts)
  assume "consistent cfg s" "step cfg c s = Some s'"
  with Call_SetReaderStorageContinue show ?thesis
    by (auto split: sum.splits dest: consistent_SetReaderStorageContinue)
next
  case Call_AttachCatalog
  assume "consistent cfg s" "step cfg c s = Some s'"
  with Call_AttachCatalog show ?thesis
    by (clarsimp simp add: AttachCatalog_def construct_defs consistent_def split: if_splits)
next
  case Call_LoadFullCheckpoint
  assume "consistent cfg s" "step cfg c s = Some s'"
  with Call_LoadFullCheckpoint show ?thesis
    by (clarsimp simp add: LoadFullCheckpoint_def construct_defs consistent_def
        split: if_splits sum.splits)
next
  case Call_AttachDeltaCheckpoint
  assume "consistent cfg s" "step cfg c s = Some s'"
  with Call_AttachDeltaCheckpoint show ?thesis
    by (clarsimp simp add: AttachDeltaCheckpoint_def construct_defs consistent_def
        split: if_splits sum.splits)
qed

lemma consistent_run: "consistent cfg s \<Longrightarrow> run cfg cs s = Some s' \<Longrightarrow> consistent cfg s'"
  by (induction cs arbitrary: s) (auto split: option.splits dest: consistent_step)

lemma reachable_consistent: "run cfg cs Storage_init = Some s \<Longrightarrow> consistent cfg s"
  using consistent_run consistent_init by blast

section \<open>Order of the emitted calls\<close>

lemma precedes_append:
  "precedes a b (xs @ ys) \<longleftrightarrow> precedes a b xs \<and> precedes a b ys \<and> (b \<in> set xs \<longrightarrow> a \<notin> set ys)"
  by (induction xs) auto

lemma precedes_present:
  "precedes a b (present h es) \<longleftrightarrow> (h \<noteq> None \<longrightarrow> precedes a b es)"
  by (cases h) (simp_all add: present_def)

lemma set_present: "x \<in> set (present h es) \<longleftrightarrow> h \<noteq> None \<and> x \<in> set es"
  by (cases h) (simp_all add: present_def)

lemma precedes_no_a: "a \<notin> set es \<Longrightarrow> precedes a b es"
  by (induction es) auto

lemma precedes_no_b: "b \<notin> set es \<Longrightarrow> precedes a b es"
  by (induction es) auto

lemma emitted_append: "emitted s (s'\<lparr>events := events s @ es\<rparr>) = es"
  by (simp add: emitted_def)

lemma order_from_Writable:
  "current_storage_mode s = kWritable \<Longrightarrow>
   SetStorageMode cfg env t s = Inr (st, s') \<Longrightarrow> teardown_order (emitted s s')"
  by (cases t; cases "StorageType cfg")
   (clarsimp simp add: SetStorageMode_def GetStorageMode_def Let_def returning_def from_Writable_def
      construct_defs teardown_nf teardown_order_def precedes_append precedes_present set_present emitted_def
      split: if_splits)+

lemma order_from_Readable:
  "current_storage_mode s = kReadable \<Longrightarrow>
   SetStorageMode cfg env t s = Inr (st, s') \<Longrightarrow> teardown_order (emitted s s')"
  by (cases t; cases "StorageType cfg")
   (clarsimp simp add: SetStorageMode_def GetStorageMode_def Let_def returning_def from_Readable_def
      construct_defs teardown_nf teardown_order_def precedes_append precedes_present set_present emitted_def
      split: if_splits)+

lemma order_from_UnInitialized:
  "current_storage_mode s = kUnInitialized \<Longrightarrow>
   SetStorageMode cfg env t s = Inr (st, s') \<Longrightarrow> teardown_order (emitted s s')"
  by (cases t)
   (clarsimp simp add: SetStorageMode_def GetStorageMode_def Let_def returning_def from_UnInitialized_def
      construct_defs teardown_nf teardown_order_def precedes_append precedes_present set_present emitted_def
      split: if_splits)+


lemma grown_refl [simp]: "grown p es es"
  by (simp add: grown_def)

lemma grown_append [simp]: "grown p es0 es \<Longrightarrow> grown p es0 (es @ ys) \<longleftrightarrow> \<not> list_ex p ys"
proof -
  assume g: "grown p es0 es"
  then have "length es0 \<le> length es"
    by (metis grown_def length_take min.cobounded1)
  with g show ?thesis by (auto simp: grown_def)
qed

lemma grownD: "grown p es0 es \<Longrightarrow> es = es0 @ drop (length es0) es \<and> \<not> list_ex p (drop (length es0) es)"
  by (metis append_take_drop_id grown_def)

lemma grown_emitted: "grown p (events s) (events s') \<Longrightarrow> \<not> list_ex p (emitted s s')"
  by (simp add: grown_def emitted_def)

lemma grown_bring_up_catalog:
  "\<not> p (ReplayWalFile t) \<Longrightarrow> \<not> p (Construct CATALOG) \<Longrightarrow> \<not> p (Reset CATALOG) \<Longrightarrow>
   \<not> p (CatalogCall ''InitCompactionAlg'') \<Longrightarrow> \<not> p (CatalogCall ''BuiltinFunctions::Init'') \<Longrightarrow>
   \<not> p (Construct BG) \<Longrightarrow> \<not> p (Construct TXN) \<Longrightarrow> \<not> p (Start TXN) \<Longrightarrow> \<not> p (Start WAL) \<Longrightarrow>
   preserves (\<lambda>s. grown p es0 (events s)) (bring_up_catalog cfg env t)"
  unfolding bring_up_catalog_def
  by (intro preserves_intros)
    (simp_all add: construct_defs Let_def present_def split: option.splits)

lemma grown_bring_up_processors:
  "\<forall>h. \<not> p (Construct h) \<and> \<not> p (Start h) \<Longrightarrow> \<forall>n. \<not> p (CatalogCall n) \<Longrightarrow>
   \<not> p SetCleanupTrigger \<Longrightarrow> \<forall>n. \<not> p (BeginTxn n) \<Longrightarrow> \<not> p SubmitForceCheckpoint \<Longrightarrow>
   \<not> p WaitForceCheckpoint \<Longrightarrow> \<not> p SetReaderAllowed \<Longrightarrow> \<not> p CommitTxn \<Longrightarrow>
   preserves (\<lambda>s. grown p es0 (events s)) (bring_up_processors cfg t)"
  unfolding bring_up_processors_def
  by (intro preserves_intros) (simp_all add: construct_defs)

lemma grown_CreateDefaultDB:
  "\<forall>n. \<not> p (BeginTxn n) \<Longrightarrow> \<not> p SetReaderAllowed \<Longrightarrow> \<forall>n c. \<not> p (CreateDatabase n c) \<Longrightarrow>
   \<not> p CommitTxn \<Longrightarrow> preserves (\<lambda>s. grown p es0 (events s)) (CreateDefaultDB env)"
  unfolding CreateDefaultDB_def
  by (intro preserves_intros) (simp_all add: construct_defs)

lemma grown_construct_stores:
  "\<forall>h. \<not> p (Construct h) \<and> \<not> p (Start h) \<Longrightarrow>
   preserves (\<lambda>s. grown p es0 (events s)) (construct_stores cfg)"
  unfolding construct_stores_def
  by (intro preserves_intros) (simp_all add: construct_defs split: option.splits)

lemma grown_init_remote_store:
  "init_remote_store cfg env m s = Inr (r, s1) \<Longrightarrow> grown p es0 (events s) \<Longrightarrow>
   \<forall>h. \<not> p (Construct h) \<and> \<not> p (Start h) \<Longrightarrow> \<not> p InitRemoteStore \<Longrightarrow> \<not> p UnInitRemoteStore \<Longrightarrow>
   grown p es0 (events s1)"
  by (cases "StorageType cfg")
    (auto simp: init_remote_store_def construct_defs split: if_splits)

lemma no_stop_bring_up: "preserves (\<lambda>s. grown is_Stop es0 (events s)) (bring_up cfg env t)"
  unfolding bring_up_def
  by (intro preserves_intros grown_bring_up_catalog grown_bring_up_processors
      grown_CreateDefaultDB) simp_all

lemma no_stop_from_Admin:
  assumes "from_Admin cfg env m t s = Inr (st, s')" and "grown is_Stop es0 (events s)"
  shows "grown is_Stop es0 (events s')"
  using assms(1)
proof (cases rule: from_Admin_cases)
  case to_uninit
  with assms(2) show ?thesis
    by (simp add: teardown_nf present_def split: option.splits)
next
  case remote_failed
  from grown_init_remote_store [OF remote_failed(2), of is_Stop es0] assms(2)
  show ?thesis by (simp add: set_mode_def)
next
  case (to_readable s1 s2)
  from grown_init_remote_store [OF to_readable(2), of is_Stop es0] assms(2)
  have "grown is_Stop es0 (events s1)" by (simp add: set_mode_def)
  from preservesD [OF grown_construct_stores to_readable(3) this] to_readable(6)
  show ?thesis by simp
next
  case (to_writable s1 s2)
  from grown_init_remote_store [OF to_writable(2), of is_Stop es0] assms(2)
  have "grown is_Stop es0 (events s1)" by (simp add: set_mode_def)
  from preservesD [OF grown_construct_stores to_writable(3) this]
  have "grown is_Stop es0 (events s2)" by simp
  from preservesD [OF no_stop_bring_up to_writable(6) this] show ?thesis .
qed

lemma no_stop_teardown_order:
  assumes "\<not> list_ex is_Stop es"
  shows "teardown_order es"
proof -
  have "Stop h \<notin> set es" for h
    using assms by (auto simp: list_ex_iff)
  then show ?thesis
    by (simp add: teardown_order_def precedes_no_a precedes_no_b)
qed

lemma order_from_Admin:
  assumes "current_storage_mode s = kAdmin" and "SetStorageMode cfg env t s = Inr (st, s')"
  shows "teardown_order (emitted s s')"
proof (cases "t = kAdmin")
  case True
  with assms show ?thesis
    by (simp add: SetStorageMode_def GetStorageMode_def emitted_def teardown_order_def)
next
  case False
  with assms have f: "from_Admin cfg env kAdmin t (construct_cleanup_info_tracer s) = Inr (st, s')"
    by (simp add: SetStorageMode_def GetStorageMode_def Let_def)
  have "grown is_Stop (events s) (events (construct_cleanup_info_tracer s))"
    by (simp add: construct_defs present_def split: option.splits)
  from no_stop_from_Admin [OF f this] show ?thesis
    by (simp add: grown_emitted no_stop_teardown_order)
qed

section \<open>The result cache is kept\<close>

lemma keeps_cache_stop_object_storage:
  "preserves (\<lambda>s. result_cache_manager s = Some r) (stop_object_storage_processor cfg)"
  by (auto simp: preserves_def stop_object_storage_processor_def log_def
      split: StorageType.splits option.splits)

lemma keeps_cache_from_UnInitialized:
  "preserves (\<lambda>s. result_cache_manager s = Some r) (from_UnInitialized t)"
  unfolding from_UnInitialized_def
  by (intro preserves_intros) (simp_all add: construct_defs)

lemma keeps_cache_from_Readable:
  "preserves (\<lambda>s. result_cache_manager s = Some r) (from_Readable cfg t)"
  unfolding from_Readable_def
  by (intro preserves_intros keeps_cache_stop_object_storage)
    (simp_all add: construct_defs teardown_nf)

lemma keeps_cache_from_Writable:
  "preserves (\<lambda>s. result_cache_manager s = Some r) (from_Writable cfg t)"
  unfolding from_Writable_def
  by (intro preserves_intros keeps_cache_stop_object_storage)
    (simp_all add: construct_defs teardown_nf)

lemma keeps_cache_construct_stores:
  "preserves (\<lambda>s. result_cache_manager s = Some r) (construct_stores cfg)"
  unfolding construct_stores_def
  by (intro preserves_intros) (simp_all add: construct_defs)

lemma keeps_cache_bring_up:
  "preserves (\<lambda>s. result_cache_manager s = Some r) (bring_up cfg env t)"
  unfolding bring_up_def bring_up_catalog_def bring_up_processors_def CreateDefaultDB_def
  by (intro preserves_intros) (simp_all add: construct_defs Let_def)

lemma keeps_cache_init_remote_store:
  "init_remote_store cfg env m s = Inr (x, s1) \<Longrightarrow> result_cache_manager s = Some r \<Longrightarrow>
   result_cache_manager s1 = Some r"
  by (cases "StorageType cfg")
    (auto simp: init_remote_store_def construct_defs split: if_splits)

lemma keeps_cache_from_Admin:
  assumes "from_Admin cfg env m t s = Inr (st, s')" and "result_cache_manager s = Some r"
  shows "result_cache_manager s' = Some r"
  using assms(1)
proof (cases rule: from_Admin_cases)
  case to_uninit
  with assms(2) show ?thesis by (simp add: teardown_nf)
next
  case remote_failed
  from keeps_cache_init_remote_store [OF remote_failed(2)] assms(2) show ?thesis
    by (simp add: set_mode_def)
next
  case (to_readable s1 s2)
  from keeps_cache_init_remote_store [OF to_readable(2)] assms(2)
  have "result_cache_manager s1 = Some r" by (simp add: set_mode_def)
  from preservesD [OF keeps_cache_construct_stores to_readable(3) this] to_readable(6)
  show ?thesis by simp
next
  case (to_writable s1 s2)
  from keeps_cache_init_remote_store [OF to_writable(2)] assms(2)
  have "result_cache_manager s1 = Some r" by (simp add: set_mode_def)
  from preservesD [OF keeps_cache_construct_stores to_writable(3) this]
  have "result_cache_manager s2 = Some r" .
  from preservesD [OF keeps_cache_bring_up to_writable(6) this] show ?thesis .
qed

lemma keeps_cache_SetStorageMode:
  assumes "SetStorageMode cfg env t s = Inr (st, s')" and "result_cache_manager s = Some r"
  shows "result_cache_manager s' = Some r"
proof (cases "current_storage_mode s = t")
  case True
  with assms show ?thesis by (simp add: SetStorageMode_def GetStorageMode_def)
next
  case False
  let ?s0 = "construct_cleanup_info_tracer s"
  have c0: "result_cache_manager ?s0 = Some r"
    using assms(2) by (simp add: construct_defs)
  show ?thesis
  proof (cases "current_storage_mode s")
    case kUnInitialized
    with assms(1) False have "from_UnInitialized t ?s0 = Inr s'"
      by (auto simp: SetStorageMode_def GetStorageMode_def Let_def returning_def split: sum.splits)
    from preservesD [OF keeps_cache_from_UnInitialized this c0] show ?thesis .
  next
    case kAdmin
    with assms(1) False have "from_Admin cfg env kAdmin t ?s0 = Inr (st, s')"
      by (simp add: SetStorageMode_def GetStorageMode_def Let_def)
    from keeps_cache_from_Admin [OF this c0] show ?thesis .
  next
    case kReadable
    with assms(1) False have "from_Readable cfg t ?s0 = Inr s'"
      by (auto simp: SetStorageMode_def GetStorageMode_def Let_def returning_def split: sum.splits)
    from preservesD [OF keeps_cache_from_Readable this c0] show ?thesis .
  next
    case kWritable
    with assms(1) False have "from_Writable cfg t ?s0 = Inr s'"
      by (auto simp: SetStorageMode_def GetStorageMode_def Let_def returning_def split: sum.splits)
    from preservesD [OF keeps_cache_from_Writable this c0] show ?thesis .
  qed
qed

lemma keeps_cache_step:
  "step cfg c s = Some s' \<Longrightarrow> result_cache_manager s = Some r \<Longrightarrow>
   result_cache_manager s' = Some r"
proof (cases c)
  case (Call_SetStorageMode env t)
  assume "step cfg c s = Some s'" "result_cache_manager s = Some r"
  with Call_SetStorageMode show ?thesis
    by (auto split: sum.splits dest: keeps_cache_SetStorageMode)
next
  case (Call_SetReaderStorageContinue ts)
  assume a: "step cfg c s = Some s'" "result_cache_manager s = Some r"
  have p: "preserves (\<lambda>s. result_cache_manager s = Some r) (reader_bootstrap cfg)"
    unfolding reader_bootstrap_def
    by (intro preserves_intros) (simp_all add: construct_defs)
  from a(1) Call_SetReaderStorageContinue have "reader_bootstrap cfg s = Inr s'"
    by (auto simp: SetReaderStorageContinue_def returning_def split: sum.splits)
  from preservesD [OF p this a(2)] show ?thesis .
next
  case Call_AttachCatalog
  assume "step cfg c s = Some s'" "result_cache_manager s = Some r"
  with Call_AttachCatalog show ?thesis
    by (auto simp: AttachCatalog_def construct_defs split: if_splits)
next
  case Call_LoadFullCheckpoint
  assume "step cfg c s = Some s'" "result_cache_manager s = Some r"
  with Call_LoadFullCheckpoint show ?thesis
    by (auto simp: LoadFullCheckpoint_def construct_defs split: if_splits)
next
  case Call_AttachDeltaCheckpoint
  assume "step cfg c s = Some s'" "result_cache_manager s = Some r"
  with Call_AttachDeltaCheckpoint show ?thesis
    by (auto simp: AttachDeltaCheckpoint_def construct_defs split: if_splits)
qed

lemma construct_stores_result_cache:
  "construct_stores cfg s1 = Inr s2 \<Longrightarrow> result_cache_manager s2 \<noteq> None"
  by (auto simp: construct_stores_def construct_defs split: if_splits option.splits)

lemma bring_up_constructs_result_cache:
  assumes "current_storage_mode s = kAdmin" and "t = kReadable \<or> t = kWritable"
    and "SetStorageMode cfg env t s = Inr (OK, s')"
  shows "result_cache_manager s' \<noteq> None"
proof -
  from assms have "from_Admin cfg env kAdmin t (construct_cleanup_info_tracer s) = Inr (OK, s')"
    by (auto simp: SetStorageMode_def GetStorageMode_def Let_def)
  then show ?thesis
  proof (cases rule: from_Admin_cases)
    case to_uninit
    with assms(2) show ?thesis by simp
  next
    case remote_failed
    then show ?thesis
      by (cases "StorageType cfg") (auto simp: init_remote_store_def split: if_splits)
  next
    case (to_readable s1 s2)
    with construct_stores_result_cache [OF to_readable(3)] show ?thesis by simp
  next
    case (to_writable s1 s2)
    from construct_stores_result_cache [OF to_writable(3)]
    obtain r where "result_cache_manager s2 = Some r" by blast
    from preservesD [OF keeps_cache_bring_up to_writable(6) this] show ?thesis by simp
  qed
qed

lemma keeps_cache_run:
  "run cfg cs s = Some s' \<Longrightarrow> result_cache_manager s = Some r \<Longrightarrow>
   result_cache_manager s' = Some r"
proof (induction cs arbitrary: s)
  case Nil
  then show ?case by simp
next
  case (Cons c cs)
  then obtain s1 where 1: "step cfg c s = Some s1" and 2: "run cfg cs s1 = Some s'"
    by (auto split: option.splits)
  from keeps_cache_step [OF 1 Cons.prems(2)] have "result_cache_manager s1 = Some r" .
  from Cons.IH [OF 2 this] show ?case .
qed

section \<open>The default database\<close>

lemma seq3D:
  "seq [f, g, h] s = Inr s' \<Longrightarrow> \<exists>sa sb. f s = Inr sa \<and> g sa = Inr sb \<and> h sb = Inr s'"
  by (auto simp: seq.simps(2) split: sum.splits)

lemma mode_stores_constructed:
  "init_remote_store cfg env m (set_mode t s) = Inr (None, s1) \<Longrightarrow>
   construct_stores cfg s1 = Inr s2 \<Longrightarrow> current_storage_mode s2 = t"
  by (cases "StorageType cfg")
    (auto simp: init_remote_store_def construct_stores_def construct_defs
      split: if_splits option.splits)

lemma CreateDefaultDB_eq:
  "CreateDefaultDB env s =
     (if txn_mgr s = None then Inl (NullPointer ''txn_mgr_'')
      else if ok (CreateDatabase_status env) then Inr (log default_db_calls s)
      else Inl (UnrecoverableError (''Can't initial 'default_db'' @ [CHR 0x27])))"
  by (simp add: CreateDefaultDB_def default_db_calls_def log_def)

lemma remote_failed_not_ok:
  "init_remote_store cfg env m s = Inr (Some st, s') \<Longrightarrow> \<not> ok st"
  by (cases "StorageType cfg") (auto simp: init_remote_store_def split: if_splits)

lemma default_db_in_bring_up:
  assumes b: "bring_up cfg env t s2 = Inr s'" and g: "grown is_CreateDatabase es0 (events s2)"
  shows "\<exists>xs ys. events s' =
           es0 @ xs @ (if ReplayWalFile_ts env = 0 \<and> t = kWritable then default_db_calls else []) @ ys \<and>
           \<not> list_ex is_CreateDatabase xs \<and> \<not> list_ex is_CreateDatabase ys \<and>
           (ReplayWalFile_ts env = 0 \<and> t = kWritable \<longrightarrow> ok (CreateDatabase_status env))"
proof -
  let ?c = "ReplayWalFile_ts env = 0 \<and> t = kWritable"
  from b obtain sa sb where a: "bring_up_catalog cfg env t s2 = Inr sa"
    and m: "cond (\<lambda>s. ?c) [CreateDefaultDB env] sa = Inr sb"
    and p: "bring_up_processors cfg t sb = Inr s'"
    unfolding bring_up_def by (blast dest: seq3D)
  have "grown is_CreateDatabase es0 (events sa)"
    by (rule preservesD [OF grown_bring_up_catalog a g]) simp_all
  from grownD [OF this] obtain xs where xs: "events sa = es0 @ xs" "\<not> list_ex is_CreateDatabase xs"
    by blast
  have mid: "events sb = events sa @ (if ?c then default_db_calls else [])"
    and okc: "?c \<longrightarrow> ok (CreateDatabase_status env)"
    using m by (auto simp: cond_def seq.simps(2) CreateDefaultDB_eq log_def split: if_splits)
  have "grown is_CreateDatabase (events sb) (events s')"
    by (rule preservesD [OF grown_bring_up_processors p]) simp_all
  from grownD [OF this] obtain ys where ys: "events s' = events sb @ ys" "\<not> list_ex is_CreateDatabase ys"
    by blast
  from xs mid ys okc show ?thesis by auto
qed


lemma default_db_from_Admin:
  assumes f: "from_Admin cfg env m t s0 = Inr (OK, s')"
    and t: "t = kReadable \<or> t = kWritable"
    and g: "grown is_CreateDatabase es0 (events s0)"
  shows "\<exists>xs ys. events s' =
           es0 @ xs @ (if ReplayWalFile_ts env = 0 \<and> t = kWritable then default_db_calls else []) @ ys \<and>
           \<not> list_ex is_CreateDatabase xs \<and> \<not> list_ex is_CreateDatabase ys \<and>
           (ReplayWalFile_ts env = 0 \<and> t = kWritable \<longrightarrow> ok (CreateDatabase_status env))"
  using f
proof (cases rule: from_Admin_cases)
  case to_uninit
  with t show ?thesis by simp
next
  case remote_failed
  from remote_failed_not_ok [OF remote_failed(2)] show ?thesis by simp
next
  case (to_readable s1 s2)
  from mode_stores_constructed [OF to_readable(2,3)] to_readable(4)
  have tr: "t = kReadable" by simp
  from grown_init_remote_store [OF to_readable(2), of is_CreateDatabase es0] g
  have "grown is_CreateDatabase es0 (events s1)" by (simp add: set_mode_def)
  from preservesD [OF grown_construct_stores to_readable(3) this]
  have "grown is_CreateDatabase es0 (events s2)" by simp
  from grownD [OF this] obtain xs where xs: "events s2 = es0 @ xs" "\<not> list_ex is_CreateDatabase xs"
    by blast
  show ?thesis
    by (rule exI [of _ xs], rule exI [of _ "[]"]) (simp add: xs to_readable(6) tr)
next
  case (to_writable s1 s2)
  from grown_init_remote_store [OF to_writable(2), of is_CreateDatabase es0] g
  have "grown is_CreateDatabase es0 (events s1)" by (simp add: set_mode_def)
  from preservesD [OF grown_construct_stores to_writable(3) this]
  have "grown is_CreateDatabase es0 (events s2)" by simp
  from default_db_in_bring_up [OF to_writable(6) this] show ?thesis .
qed

section \<open>The readable bring-up from a state that has its WAL manager\<close>

lemma readable_bring_up_with_wal:
  assumes r: "run cfg cs Storage_init = Some s"
    and m: "current_storage_mode s = kAdmin"
    and w: "wal_mgr s \<noteq> None"
    and c: "SetStorageMode cfg env kReadable s = Inr (OK, s')"
  shows "current_storage_mode s' = kReadable \<and> reader_init_phase s' = kPhase1 \<and>
         wal_mgr s' \<noteq> None \<and> buffer_mgr s' \<noteq> None \<and> result_cache_manager s' \<noteq> None \<and>
         new_catalog s' = None \<and> txn_mgr s' = None \<and> bg_processor s' = None \<and>
         memory_index_tracer s' = None \<and> periodic_trigger_thread s' = None"
proof -
  have cs: "consistent cfg s" using r by (rule reachable_consistent)
  let ?s0 = "construct_cleanup_info_tracer s"
  from c m have f: "from_Admin cfg env kAdmin kReadable ?s0 = Inr (OK, s')"
    by (simp add: SetStorageMode_def GetStorageMode_def Let_def)
  have c0: "object_storage_processor ?s0 = None" "\<not> VirtualStore_IsInit ?s0"
    "cleanup_info_tracer ?s0 \<noteq> None"
    using cs m by (simp_all add: consistent_def construct_defs)
  from f show ?thesis
  proof (cases rule: from_Admin_cases)
    case to_uninit
    then show ?thesis by simp
  next
    case remote_failed
    from remote_failed_not_ok [OF remote_failed(2)] show ?thesis by simp
  next
    case (to_readable s1 s2)
    from stores_constructed [OF to_readable(2,3) c0] to_readable(6) cs m w
    show ?thesis by (simp add: consistent_def construct_defs)
  next
    case (to_writable s1 s2)
    from stores_constructed [OF to_writable(2,3) c0] to_writable(4)
    show ?thesis by simp
  qed
qed

section \<open>The calls of the teardowns\<close>

text \<open>
  The calls a teardown from Writable or Readable makes, in the order it makes them:
  a member that is there gives its stop and its reset, a null member gives nothing.
\<close>

lemma calls_from_Writable:
  assumes "current_storage_mode s = kWritable" and "t = kUnInitialized \<or> t = kAdmin"
    and "SetStorageMode cfg env t s = Inr (st, s')"
  shows "emitted s s' =
     Construct CLEANUP_TRACER # present (cleanup_info_tracer s) [Reset CLEANUP_TRACER] @
     present (periodic_trigger_thread s) [Stop PERIODIC_TRIGGER, Reset PERIODIC_TRIGGER] @
     present (compact_processor s) [Stop COMPACT, Reset COMPACT] @
     present (bg_processor s) [Stop BG, Reset BG] @
     present (new_catalog s) [Reset CATALOG] @
     present (memory_index_tracer s) [Reset MEM_INDEX_TRACER] @
     present (wal_mgr s) [Stop WAL, Reset WAL] @
     (if StorageType cfg = kMinio
      then present (object_storage_processor s)
             [Stop OBJECT_STORAGE, Reset OBJECT_STORAGE, UnInitRemoteStore]
      else []) @
     present (txn_mgr s) [Stop TXN, Reset TXN] @
     present (buffer_mgr s) [Stop BUFFER, Reset BUFFER] @
     present (persistence_manager s) [Reset PERSISTENCE] @
     (if t = kAdmin then [Construct WAL] else [])"
  using assms
  by (cases t; cases "StorageType cfg")
    (clarsimp simp add: SetStorageMode_def GetStorageMode_def Let_def returning_def
      from_Writable_def construct_defs teardown_nf emitted_def split: if_splits)+

lemma calls_from_Readable:
  assumes "current_storage_mode s = kReadable" and "t = kUnInitialized \<or> t = kAdmin"
    and "SetStorageMode cfg env t s = Inr (st, s')"
  shows "emitted s s' =
     Construct CLEANUP_TRACER # present (cleanup_info_tracer s) [Reset CLEANUP_TRACER] @
     present (periodic_trigger_thread s) [Stop PERIODIC_TRIGGER, Reset PERIODIC_TRIGGER] @
     present (compact_processor s) [Stop COMPACT, Reset COMPACT] @
     present (bg_processor s) [Stop BG, Reset BG] @
     present (new_catalog s) [Reset CATALOG] @
     present (memory_index_tracer s) [Reset MEM_INDEX_TRACER] @
     present (wal_mgr s) [Stop WAL, Reset WAL] @
     (if StorageType cfg = kMinio
      then present (object_storage_processor s)
             [Stop OBJECT_STORAGE, Reset OBJECT_STORAGE, UnInitRemoteStore]
      else []) @
     present (txn_mgr s) [Stop TXN, Reset TXN] @
     present (buffer_mgr s) [Stop BUFFER, Reset BUFFER] @
     present (persistence_manager s) [Reset PERSISTENCE] @
     (if t = kAdmin then [Construct WAL] else [])"
  using assms
  by (cases t; cases "StorageType cfg")
    (clarsimp simp add: SetStorageMode_def GetStorageMode_def Let_def returning_def
      from_Readable_def construct_defs teardown_nf emitted_def present_def split: if_splits)+

lemma calls_of_demotion:
  assumes "current_storage_mode s = kWritable"
    and "SetStorageMode cfg env kReadable s = Inr (st, s')"
  shows "emitted s s' =
     Construct CLEANUP_TRACER # present (cleanup_info_tracer s) [Reset CLEANUP_TRACER] @
     present (periodic_trigger_thread s) [Stop PERIODIC_TRIGGER, Reset PERIODIC_TRIGGER] @
     present (compact_processor s) [Stop COMPACT, Reset COMPACT] @
     [Construct PERIODIC_TRIGGER, SetCleanupTrigger, Start PERIODIC_TRIGGER]"
  using assms
  by (clarsimp simp add: SetStorageMode_def GetStorageMode_def Let_def returning_def
      from_Writable_def construct_defs teardown_nf emitted_def split: if_splits)
section \<open>Evaluation on concrete sequences\<close>

lemmas all_defs = SetStorageMode_def GetStorageMode_def Let_def returning_def from_UnInitialized_def from_Admin_def
  init_remote_store_def construct_stores_def bring_up_def bring_up_catalog_def
  bring_up_processors_def CreateDefaultDB_def
  from_Readable_def from_Writable_def SetReaderStorageContinue_def reader_bootstrap_def AttachCatalog_def
  LoadFullCheckpoint_def AttachDeltaCheckpoint_def construct_defs teardown_nf
  Storage_init_def cfg_local_def cfg_remote_def env_fresh_def
  present_def clamp_def

section \<open>The promotion from Readable to Writable\<close>

text \<open>
  The promotion from Readable to Writable tests none of the periodic trigger thread,
  the catalog and the transaction manager. With the periodic trigger thread null it
  dereferences a null pointer, whatever the reader phase; with the thread there it
  returns OK and hands the catalog and transaction manager pointers, null or not, to
  the new compaction processor. In every state a permitted sequence reaches with the
  reader phase 2, the three members are there and the promotion returns OK.
\<close>

lemma promotion_to_writable:
  assumes m: "current_storage_mode s = kReadable"
  shows "(compact_processor s = None \<and> periodic_trigger_thread s = None \<longrightarrow>
            SetStorageMode cfg env kWritable s = Inl (NullPointer ''periodic_trigger_thread_'')) \<and>
         (compact_processor s = None \<and> periodic_trigger_thread s \<noteq> None \<longrightarrow>
            (\<exists>s' c. SetStorageMode cfg env kWritable s = Inr (OK, s') \<and>
               current_storage_mode s' = kWritable \<and> compact_processor s' = Some c \<and>
               refs c = [get (new_catalog s), get (txn_mgr s)])) \<and>
         ((\<exists>cs. run cfg cs Storage_init = Some s) \<and> reader_init_phase s = kPhase2 \<longrightarrow>
            periodic_trigger_thread s \<noteq> None \<and> new_catalog s \<noteq> None \<and> txn_mgr s \<noteq> None \<and>
            compact_processor s = None \<and>
            (\<exists>s'. SetStorageMode cfg env kWritable s = Inr (OK, s')))"
proof -
  have 1: "compact_processor s = None \<and> periodic_trigger_thread s = None \<longrightarrow>
      SetStorageMode cfg env kWritable s = Inl (NullPointer ''periodic_trigger_thread_'')"
    using m
    by (simp add: SetStorageMode_def GetStorageMode_def Let_def returning_def from_Readable_def construct_defs)
  have 2: "compact_processor s = None \<and> periodic_trigger_thread s \<noteq> None \<longrightarrow>
      (\<exists>s' c. SetStorageMode cfg env kWritable s = Inr (OK, s') \<and>
         current_storage_mode s' = kWritable \<and> compact_processor s' = Some c \<and>
         refs c = [get (new_catalog s), get (txn_mgr s)])"
    using m
    by (auto simp: SetStorageMode_def GetStorageMode_def Let_def returning_def from_Readable_def construct_defs)
  have 3: "(\<exists>cs. run cfg cs Storage_init = Some s) \<and> reader_init_phase s = kPhase2 \<longrightarrow>
      periodic_trigger_thread s \<noteq> None \<and> new_catalog s \<noteq> None \<and> txn_mgr s \<noteq> None \<and>
      compact_processor s = None \<and>
      (\<exists>s'. SetStorageMode cfg env kWritable s = Inr (OK, s'))"
  proof
    assume a: "(\<exists>cs. run cfg cs Storage_init = Some s) \<and> reader_init_phase s = kPhase2"
    then have "consistent cfg s" by (auto intro: reachable_consistent)
    with a m have p: "periodic_trigger_thread s \<noteq> None \<and> new_catalog s \<noteq> None \<and>
        txn_mgr s \<noteq> None \<and> compact_processor s = None"
      by (simp add: consistent_def)
    with 2 have "\<exists>s'. SetStorageMode cfg env kWritable s = Inr (OK, s')" by blast
    with p show "periodic_trigger_thread s \<noteq> None \<and> new_catalog s \<noteq> None \<and>
        txn_mgr s \<noteq> None \<and> compact_processor s = None \<and>
        (\<exists>s'. SetStorageMode cfg env kWritable s = Inr (OK, s'))"
      by simp
  qed
  show ?thesis by (rule conjI [OF 1 conjI [OF 2 3]])
qed

lemma promotion_to_writable_example:
  "(\<exists>s s'. run cfg_local [Call_SetStorageMode env_fresh kAdmin,
                          Call_SetStorageMode env_fresh kReadable,
                          Call_AttachCatalog,
                          Call_SetReaderStorageContinue 42] Storage_init = Some s \<and>
      current_storage_mode s = kReadable \<and> reader_init_phase s = kPhase2 \<and>
      periodic_trigger_thread s \<noteq> None \<and> new_catalog s \<noteq> None \<and> txn_mgr s \<noteq> None \<and>
      SetStorageMode cfg_local env_fresh kWritable s = Inr (OK, s')) \<and>
   (\<exists>s. run cfg_local [Call_SetStorageMode env_fresh kAdmin,
                        Call_SetStorageMode env_fresh kReadable] Storage_init = Some s \<and>
      current_storage_mode s = kReadable \<and> reader_init_phase s = kPhase1 \<and>
      SetStorageMode cfg_local env_fresh kWritable s =
        Inl (NullPointer ''periodic_trigger_thread_''))"
proof
  have "\<exists>s. run cfg_local [Call_SetStorageMode env_fresh kAdmin,
                          Call_SetStorageMode env_fresh kReadable,
                          Call_AttachCatalog,
                          Call_SetReaderStorageContinue 42] Storage_init = Some s \<and>
      current_storage_mode s = kReadable \<and> reader_init_phase s = kPhase2"
    by (simp add: all_defs)
  then obtain s where h:
    "run cfg_local [Call_SetStorageMode env_fresh kAdmin,
                    Call_SetStorageMode env_fresh kReadable,
                    Call_AttachCatalog,
                    Call_SetReaderStorageContinue 42] Storage_init = Some s"
    "current_storage_mode s = kReadable" "reader_init_phase s = kPhase2"
    by blast
  from h(1) have r: "\<exists>cs. run cfg_local cs Storage_init = Some s" by blast
  from promotion_to_writable [OF h(2), of cfg_local env_fresh, THEN conjunct2, THEN conjunct2]
    r h(3)
  obtain s' where "periodic_trigger_thread s \<noteq> None" "new_catalog s \<noteq> None"
    "txn_mgr s \<noteq> None" "SetStorageMode cfg_local env_fresh kWritable s = Inr (OK, s')"
    by blast
  with h show "\<exists>s s'. run cfg_local [Call_SetStorageMode env_fresh kAdmin,
                          Call_SetStorageMode env_fresh kReadable,
                          Call_AttachCatalog,
                          Call_SetReaderStorageContinue 42] Storage_init = Some s \<and>
      current_storage_mode s = kReadable \<and> reader_init_phase s = kPhase2 \<and>
      periodic_trigger_thread s \<noteq> None \<and> new_catalog s \<noteq> None \<and> txn_mgr s \<noteq> None \<and>
      SetStorageMode cfg_local env_fresh kWritable s = Inr (OK, s')"
    by blast
next
  have "\<exists>s. run cfg_local [Call_SetStorageMode env_fresh kAdmin,
                          Call_SetStorageMode env_fresh kReadable] Storage_init = Some s \<and>
      current_storage_mode s = kReadable \<and> reader_init_phase s = kPhase1 \<and>
      compact_processor s = None \<and> periodic_trigger_thread s = None"
    by (simp add: all_defs)
  then obtain s where h:
    "run cfg_local [Call_SetStorageMode env_fresh kAdmin,
                    Call_SetStorageMode env_fresh kReadable] Storage_init = Some s"
    "current_storage_mode s = kReadable" "reader_init_phase s = kPhase1"
    "compact_processor s = None \<and> periodic_trigger_thread s = None"
    by blast
  from promotion_to_writable [OF h(2), of cfg_local env_fresh, THEN conjunct1] h(4)
  have "SetStorageMode cfg_local env_fresh kWritable s =
        Inl (NullPointer ''periodic_trigger_thread_'')"
    by blast
  with h show "\<exists>s. run cfg_local [Call_SetStorageMode env_fresh kAdmin,
                        Call_SetStorageMode env_fresh kReadable] Storage_init = Some s \<and>
      current_storage_mode s = kReadable \<and> reader_init_phase s = kPhase1 \<and>
      SetStorageMode cfg_local env_fresh kWritable s =
        Inl (NullPointer ''periodic_trigger_thread_'')"
    by blast
qed

section \<open>The claims\<close>

text \<open>
  Claim C1, as stated: after a call of \<open>SetStorageMode\<close> that returns OK and leaves the
  mode \<open>kUnInitialized\<close>, every member but the cleanup tracer is null. It fails for the
  result cache: the bring-up constructs it and no teardown resets it. After
  UnInitialized, Admin, Writable, UnInitialized the result cache is still there.
\<close>

theorem uninitialized_keeps_result_cache:
  "\<exists>s s'. run cfg_remote [Call_SetStorageMode env_fresh kAdmin,
                          Call_SetStorageMode env_fresh kWritable] Storage_init = Some s \<and>
     SetStorageMode cfg_remote env_fresh kUnInitialized s = Inr (OK, s') \<and>
     current_storage_mode s' = kUnInitialized \<and> result_cache_manager s' \<noteq> None"
  by (simp add: all_defs)

text \<open>
  Claim C1, amended: in every state a permitted sequence reaches from the initial
  state, a call of \<open>SetStorageMode\<close> that returns and leaves the mode
  \<open>kUnInitialized\<close> leaves the WAL manager, the catalog, the transaction manager, the
  buffer manager, the persistence manager, the object storage processor, the
  background processor, the compaction processor, the memory index tracer and the
  periodic trigger thread null. The result cache and the cleanup tracer may be there.
\<close>

theorem uninitialized_members_null:
  assumes "run cfg cs Storage_init = Some s"
    and "SetStorageMode cfg env t s = Inr (st, s')"
    and "current_storage_mode s' = kUnInitialized"
  shows "wal_mgr s' = None \<and> new_catalog s' = None \<and> txn_mgr s' = None \<and>
         buffer_mgr s' = None \<and> persistence_manager s' = None \<and>
         object_storage_processor s' = None \<and> bg_processor s' = None \<and>
         compact_processor s' = None \<and> memory_index_tracer s' = None \<and>
         periodic_trigger_thread s' = None"
proof -
  have "consistent cfg s" using assms(1) by (rule reachable_consistent)
  then have "consistent cfg s'" using assms(2) by (rule consistent_SetStorageMode)
  then show ?thesis using assms(3) by (simp add: consistent_def)
qed

theorem uninitialized_members_null_witness:
  "\<exists>s s'. run cfg_remote [Call_SetStorageMode env_fresh kAdmin,
                          Call_SetStorageMode env_fresh kWritable] Storage_init = Some s \<and>
     SetStorageMode cfg_remote env_fresh kUnInitialized s = Inr (OK, s') \<and>
     current_storage_mode s' = kUnInitialized \<and>
     wal_mgr s' = None \<and> new_catalog s' = None \<and> txn_mgr s' = None \<and>
     buffer_mgr s' = None \<and> persistence_manager s' = None \<and>
     object_storage_processor s' = None \<and> bg_processor s' = None \<and>
     compact_processor s' = None \<and> memory_index_tracer s' = None \<and>
     periodic_trigger_thread s' = None"
proof -
  have "\<exists>s s'. run cfg_remote [Call_SetStorageMode env_fresh kAdmin,
                          Call_SetStorageMode env_fresh kWritable] Storage_init = Some s \<and>
     SetStorageMode cfg_remote env_fresh kUnInitialized s = Inr (OK, s') \<and>
     current_storage_mode s' = kUnInitialized"
    by (simp add: all_defs)
  then obtain s s' where h:
    "run cfg_remote [Call_SetStorageMode env_fresh kAdmin,
                     Call_SetStorageMode env_fresh kWritable] Storage_init = Some s"
    "SetStorageMode cfg_remote env_fresh kUnInitialized s = Inr (OK, s')"
    "current_storage_mode s' = kUnInitialized"
    by blast
  from uninitialized_members_null [OF h] h show ?thesis by blast
qed

text \<open>
  Claim C2, as stated: in a transition that resets two or more members, the periodic
  trigger thread stops before each of the background, compaction and object storage
  processors stops, and each of these stops before the catalog, the transaction
  manager, the WAL manager and the buffer manager are reset. It fails with remote
  storage: both teardowns reset the catalog and the WAL manager first and stop the
  object storage processor after them.
\<close>

theorem teardown_stops_object_storage_late:
  "\<exists>s s'. run cfg_remote [Call_SetStorageMode env_fresh kAdmin,
                          Call_SetStorageMode env_fresh kWritable] Storage_init = Some s \<and>
     SetStorageMode cfg_remote env_fresh kUnInitialized s = Inr (OK, s') \<and>
     2 \<le> drops (emitted s s') \<and> \<not> teardown_order_claimed (emitted s s')"
  by (simp add: all_defs emitted_def drops_def teardown_order_claimed_def)

text \<open>
  Claim C2, amended: a teardown from Readable or Writable to UnInitialized or Admin
  that returns makes exactly these calls, in this order, each member that is there
  giving its calls and a null member none: the periodic trigger thread stops and is
  reset, then the compaction processor, then the background processor; the catalog
  and the memory index tracer are reset; the WAL manager stops and is reset; with
  remote storage the object storage processor stops and is reset; the transaction
  manager, then the buffer manager stop and are reset; the persistence manager is
  reset. So every processor that is there is stopped; the periodic trigger thread
  stops before each of the three processors stops; the background and the compaction
  processor stop before the catalog, the transaction manager, the WAL manager and the
  buffer manager are reset; the object storage processor stops before the transaction
  manager and the buffer manager are reset, and after the catalog and the WAL manager
  are. The demotion from Writable to Readable stops and resets the periodic trigger
  thread, then the compaction processor, and nothing else; and this order holds in
  every transition \<open>SetStorageMode\<close> executes.
\<close>

theorem teardown_order_kept:
  assumes "SetStorageMode cfg env t s = Inr (st, s')"
  shows "teardown_order (emitted s s') \<and>
         ((current_storage_mode s = kReadable \<or> current_storage_mode s = kWritable) \<and>
          (t = kUnInitialized \<or> t = kAdmin) \<longrightarrow>
            emitted s s' =
            Construct CLEANUP_TRACER # present (cleanup_info_tracer s) [Reset CLEANUP_TRACER] @
            present (periodic_trigger_thread s) [Stop PERIODIC_TRIGGER, Reset PERIODIC_TRIGGER] @
            present (compact_processor s) [Stop COMPACT, Reset COMPACT] @
            present (bg_processor s) [Stop BG, Reset BG] @
            present (new_catalog s) [Reset CATALOG] @
            present (memory_index_tracer s) [Reset MEM_INDEX_TRACER] @
            present (wal_mgr s) [Stop WAL, Reset WAL] @
            (if StorageType cfg = kMinio
             then present (object_storage_processor s)
                    [Stop OBJECT_STORAGE, Reset OBJECT_STORAGE, UnInitRemoteStore]
             else []) @
            present (txn_mgr s) [Stop TXN, Reset TXN] @
            present (buffer_mgr s) [Stop BUFFER, Reset BUFFER] @
            present (persistence_manager s) [Reset PERSISTENCE] @
            (if t = kAdmin then [Construct WAL] else []) \<and>
            (periodic_trigger_thread s \<noteq> None \<longrightarrow> Stop PERIODIC_TRIGGER \<in> set (emitted s s')) \<and>
            (compact_processor s \<noteq> None \<longrightarrow> Stop COMPACT \<in> set (emitted s s')) \<and>
            (bg_processor s \<noteq> None \<longrightarrow> Stop BG \<in> set (emitted s s')) \<and>
            (object_storage_processor s \<noteq> None \<and> StorageType cfg = kMinio \<longrightarrow>
               Stop OBJECT_STORAGE \<in> set (emitted s s'))) \<and>
         (current_storage_mode s = kWritable \<and> t = kReadable \<longrightarrow>
            emitted s s' =
            Construct CLEANUP_TRACER # present (cleanup_info_tracer s) [Reset CLEANUP_TRACER] @
            present (periodic_trigger_thread s) [Stop PERIODIC_TRIGGER, Reset PERIODIC_TRIGGER] @
            present (compact_processor s) [Stop COMPACT, Reset COMPACT] @
            [Construct PERIODIC_TRIGGER, SetCleanupTrigger, Start PERIODIC_TRIGGER])"
proof -
  have 1: "teardown_order (emitted s s')"
    using assms
    by (cases "current_storage_mode s")
      (blast intro: order_from_UnInitialized order_from_Admin order_from_Readable
         order_from_Writable)+
  have 2: "(current_storage_mode s = kReadable \<or> current_storage_mode s = kWritable) \<and>
          (t = kUnInitialized \<or> t = kAdmin) \<longrightarrow>
            emitted s s' =
            Construct CLEANUP_TRACER # present (cleanup_info_tracer s) [Reset CLEANUP_TRACER] @
            present (periodic_trigger_thread s) [Stop PERIODIC_TRIGGER, Reset PERIODIC_TRIGGER] @
            present (compact_processor s) [Stop COMPACT, Reset COMPACT] @
            present (bg_processor s) [Stop BG, Reset BG] @
            present (new_catalog s) [Reset CATALOG] @
            present (memory_index_tracer s) [Reset MEM_INDEX_TRACER] @
            present (wal_mgr s) [Stop WAL, Reset WAL] @
            (if StorageType cfg = kMinio
             then present (object_storage_processor s)
                    [Stop OBJECT_STORAGE, Reset OBJECT_STORAGE, UnInitRemoteStore]
             else []) @
            present (txn_mgr s) [Stop TXN, Reset TXN] @
            present (buffer_mgr s) [Stop BUFFER, Reset BUFFER] @
            present (persistence_manager s) [Reset PERSISTENCE] @
            (if t = kAdmin then [Construct WAL] else []) \<and>
            (periodic_trigger_thread s \<noteq> None \<longrightarrow> Stop PERIODIC_TRIGGER \<in> set (emitted s s')) \<and>
            (compact_processor s \<noteq> None \<longrightarrow> Stop COMPACT \<in> set (emitted s s')) \<and>
            (bg_processor s \<noteq> None \<longrightarrow> Stop BG \<in> set (emitted s s')) \<and>
            (object_storage_processor s \<noteq> None \<and> StorageType cfg = kMinio \<longrightarrow>
               Stop OBJECT_STORAGE \<in> set (emitted s s'))"
  proof
    assume a: "(current_storage_mode s = kReadable \<or> current_storage_mode s = kWritable) \<and>
          (t = kUnInitialized \<or> t = kAdmin)"
    then have e: "emitted s s' =
            Construct CLEANUP_TRACER # present (cleanup_info_tracer s) [Reset CLEANUP_TRACER] @
            present (periodic_trigger_thread s) [Stop PERIODIC_TRIGGER, Reset PERIODIC_TRIGGER] @
            present (compact_processor s) [Stop COMPACT, Reset COMPACT] @
            present (bg_processor s) [Stop BG, Reset BG] @
            present (new_catalog s) [Reset CATALOG] @
            present (memory_index_tracer s) [Reset MEM_INDEX_TRACER] @
            present (wal_mgr s) [Stop WAL, Reset WAL] @
            (if StorageType cfg = kMinio
             then present (object_storage_processor s)
                    [Stop OBJECT_STORAGE, Reset OBJECT_STORAGE, UnInitRemoteStore]
             else []) @
            present (txn_mgr s) [Stop TXN, Reset TXN] @
            present (buffer_mgr s) [Stop BUFFER, Reset BUFFER] @
            present (persistence_manager s) [Reset PERSISTENCE] @
            (if t = kAdmin then [Construct WAL] else [])"
      using assms calls_from_Readable calls_from_Writable by blast
    show "emitted s s' =
            Construct CLEANUP_TRACER # present (cleanup_info_tracer s) [Reset CLEANUP_TRACER] @
            present (periodic_trigger_thread s) [Stop PERIODIC_TRIGGER, Reset PERIODIC_TRIGGER] @
            present (compact_processor s) [Stop COMPACT, Reset COMPACT] @
            present (bg_processor s) [Stop BG, Reset BG] @
            present (new_catalog s) [Reset CATALOG] @
            present (memory_index_tracer s) [Reset MEM_INDEX_TRACER] @
            present (wal_mgr s) [Stop WAL, Reset WAL] @
            (if StorageType cfg = kMinio
             then present (object_storage_processor s)
                    [Stop OBJECT_STORAGE, Reset OBJECT_STORAGE, UnInitRemoteStore]
             else []) @
            present (txn_mgr s) [Stop TXN, Reset TXN] @
            present (buffer_mgr s) [Stop BUFFER, Reset BUFFER] @
            present (persistence_manager s) [Reset PERSISTENCE] @
            (if t = kAdmin then [Construct WAL] else []) \<and>
            (periodic_trigger_thread s \<noteq> None \<longrightarrow> Stop PERIODIC_TRIGGER \<in> set (emitted s s')) \<and>
            (compact_processor s \<noteq> None \<longrightarrow> Stop COMPACT \<in> set (emitted s s')) \<and>
            (bg_processor s \<noteq> None \<longrightarrow> Stop BG \<in> set (emitted s s')) \<and>
            (object_storage_processor s \<noteq> None \<and> StorageType cfg = kMinio \<longrightarrow>
               Stop OBJECT_STORAGE \<in> set (emitted s s'))"
      by (simp add: e set_present)
  qed
  have 3: "current_storage_mode s = kWritable \<and> t = kReadable \<longrightarrow>
            emitted s s' =
            Construct CLEANUP_TRACER # present (cleanup_info_tracer s) [Reset CLEANUP_TRACER] @
            present (periodic_trigger_thread s) [Stop PERIODIC_TRIGGER, Reset PERIODIC_TRIGGER] @
            present (compact_processor s) [Stop COMPACT, Reset COMPACT] @
            [Construct PERIODIC_TRIGGER, SetCleanupTrigger, Start PERIODIC_TRIGGER]"
    using assms calls_of_demotion by blast
  show ?thesis by (rule conjI [OF 1 conjI [OF 2 3]])
qed

theorem teardown_order_kept_witness:
  "\<exists>s s'. run cfg_remote [Call_SetStorageMode env_fresh kAdmin,
                          Call_SetStorageMode env_fresh kWritable] Storage_init = Some s \<and>
     SetStorageMode cfg_remote env_fresh kUnInitialized s = Inr (OK, s') \<and>
     2 \<le> drops (emitted s s') \<and> teardown_order (emitted s s') \<and>
     emitted s s' =
       [Construct CLEANUP_TRACER, Reset CLEANUP_TRACER,
        Stop PERIODIC_TRIGGER, Reset PERIODIC_TRIGGER, Stop COMPACT, Reset COMPACT,
        Stop BG, Reset BG, Reset CATALOG, Reset MEM_INDEX_TRACER, Stop WAL, Reset WAL,
        Stop OBJECT_STORAGE, Reset OBJECT_STORAGE, UnInitRemoteStore,
        Stop TXN, Reset TXN, Stop BUFFER, Reset BUFFER, Reset PERSISTENCE]"
proof -
  have "\<exists>s s'. run cfg_remote [Call_SetStorageMode env_fresh kAdmin,
                          Call_SetStorageMode env_fresh kWritable] Storage_init = Some s \<and>
     SetStorageMode cfg_remote env_fresh kUnInitialized s = Inr (OK, s') \<and>
     2 \<le> drops (emitted s s') \<and> current_storage_mode s = kWritable \<and>
     cleanup_info_tracer s \<noteq> None \<and> periodic_trigger_thread s \<noteq> None \<and>
     compact_processor s \<noteq> None \<and> bg_processor s \<noteq> None \<and> new_catalog s \<noteq> None \<and>
     memory_index_tracer s \<noteq> None \<and> wal_mgr s \<noteq> None \<and>
     object_storage_processor s \<noteq> None \<and> txn_mgr s \<noteq> None \<and> buffer_mgr s \<noteq> None \<and>
     persistence_manager s \<noteq> None"
    by (simp add: all_defs emitted_def drops_def)
  then obtain s s' where h:
    "run cfg_remote [Call_SetStorageMode env_fresh kAdmin,
                     Call_SetStorageMode env_fresh kWritable] Storage_init = Some s"
    "SetStorageMode cfg_remote env_fresh kUnInitialized s = Inr (OK, s')"
    "2 \<le> drops (emitted s s')"
    and m: "current_storage_mode s = kWritable"
    and p: "cleanup_info_tracer s \<noteq> None" "periodic_trigger_thread s \<noteq> None"
      "compact_processor s \<noteq> None" "bg_processor s \<noteq> None" "new_catalog s \<noteq> None"
      "memory_index_tracer s \<noteq> None" "wal_mgr s \<noteq> None"
      "object_storage_processor s \<noteq> None" "txn_mgr s \<noteq> None" "buffer_mgr s \<noteq> None"
      "persistence_manager s \<noteq> None"
    by blast
  note T = teardown_order_kept [OF h(2)]
  from T have o: "teardown_order (emitted s s')" by (rule conjunct1)
  from T m have "emitted s s' =
       Construct CLEANUP_TRACER # present (cleanup_info_tracer s) [Reset CLEANUP_TRACER] @
       present (periodic_trigger_thread s) [Stop PERIODIC_TRIGGER, Reset PERIODIC_TRIGGER] @
       present (compact_processor s) [Stop COMPACT, Reset COMPACT] @
       present (bg_processor s) [Stop BG, Reset BG] @
       present (new_catalog s) [Reset CATALOG] @
       present (memory_index_tracer s) [Reset MEM_INDEX_TRACER] @
       present (wal_mgr s) [Stop WAL, Reset WAL] @
       (if StorageType cfg_remote = kMinio
        then present (object_storage_processor s)
               [Stop OBJECT_STORAGE, Reset OBJECT_STORAGE, UnInitRemoteStore]
        else []) @
       present (txn_mgr s) [Stop TXN, Reset TXN] @
       present (buffer_mgr s) [Stop BUFFER, Reset BUFFER] @
       present (persistence_manager s) [Reset PERSISTENCE] @
       (if kUnInitialized = kAdmin then [Construct WAL] else [])"
    by simp
  with p have "emitted s s' =
       [Construct CLEANUP_TRACER, Reset CLEANUP_TRACER,
        Stop PERIODIC_TRIGGER, Reset PERIODIC_TRIGGER, Stop COMPACT, Reset COMPACT,
        Stop BG, Reset BG, Reset CATALOG, Reset MEM_INDEX_TRACER, Stop WAL, Reset WAL,
        Stop OBJECT_STORAGE, Reset OBJECT_STORAGE, UnInitRemoteStore,
        Stop TXN, Reset TXN, Stop BUFFER, Reset BUFFER, Reset PERSISTENCE]"
    by (auto simp: present_def cfg_remote_def)
  with h o show ?thesis by blast
qed

text \<open>
  Claim C3. In every state a permitted sequence reaches with the mode Admin, a call
  of \<open>SetStorageMode\<close> to Readable or Writable under the storage type \<open>kMinio\<close>
  whose initialisation of the remote store fails returns the status of that
  initialisation; afterwards the mode is Admin again, the remote store is not
  initialised and the observable state is the one before the call: every member but
  the cleanup tracer is the object it was, and the cleanup tracer, which the call
  replaced by a fresh one on entry, is there as before. The calls it makes are
  exactly these: the cleanup tracer is replaced, the remote store is initialised,
  which fails, and the remote store is uninitialised.
\<close>

theorem remote_init_failure_reverts:
  assumes r: "run cfg cs Storage_init = Some s"
    and m: "current_storage_mode s = kAdmin"
    and c: "StorageType cfg = kMinio"
    and t: "t = kReadable \<or> t = kWritable"
    and f: "\<not> ok (InitRemoteStore_status env)"
  shows "\<exists>s'. SetStorageMode cfg env t s = Inr (InitRemoteStore_status env, s') \<and>
           current_storage_mode s' = kAdmin \<and> \<not> VirtualStore_IsInit s' \<and>
           observable s' = observable s \<and>
           emitted s s' =
             [Construct CLEANUP_TRACER, Reset CLEANUP_TRACER, InitRemoteStore, UnInitRemoteStore]"
proof -
  have "consistent cfg s" using r by (rule reachable_consistent)
  with m have i: "\<not> VirtualStore_IsInit s" and ct: "cleanup_info_tracer s \<noteq> None"
    by (simp_all add: consistent_def)
  from ct obtain x where x: "cleanup_info_tracer s = Some x" by blast
  from t m c f i have "SetStorageMode cfg env t s =
      Inr (InitRemoteStore_status env,
           log [InitRemoteStore, UnInitRemoteStore]
             ((set_mode kAdmin (set_mode t (construct_cleanup_info_tracer s)))
                \<lparr>VirtualStore_IsInit := False\<rparr>))"
    by (auto simp: SetStorageMode_def GetStorageMode_def Let_def from_Admin_def init_remote_store_def construct_defs)
  moreover have "observable (log [InitRemoteStore, UnInitRemoteStore]
             ((set_mode kAdmin (set_mode t (construct_cleanup_info_tracer s)))
                \<lparr>VirtualStore_IsInit := False\<rparr>)) = observable s"
    using m i x by (cases s) (simp add: observable_def construct_defs)
  moreover have "emitted s (log [InitRemoteStore, UnInitRemoteStore]
             ((set_mode kAdmin (set_mode t (construct_cleanup_info_tracer s)))
                \<lparr>VirtualStore_IsInit := False\<rparr>)) =
      [Construct CLEANUP_TRACER, Reset CLEANUP_TRACER, InitRemoteStore, UnInitRemoteStore]"
    using x by (simp add: emitted_def construct_defs present_def)
  ultimately show ?thesis
    using i by (simp add: construct_defs)
qed


theorem remote_init_failure_reverts_witness:
  "\<exists>s s'. run cfg_remote [Call_SetStorageMode env_fresh kAdmin] Storage_init = Some s \<and>
     SetStorageMode cfg_remote env_remote_down kWritable s =
       Inr (Error ''connection refused'', s') \<and>
     current_storage_mode s' = kAdmin \<and> \<not> VirtualStore_IsInit s' \<and>
     observable s' = observable s \<and>
     emitted s s' =
       [Construct CLEANUP_TRACER, Reset CLEANUP_TRACER, InitRemoteStore, UnInitRemoteStore]"
proof -
  have "\<exists>s. run cfg_remote [Call_SetStorageMode env_fresh kAdmin] Storage_init = Some s \<and>
     current_storage_mode s = kAdmin"
    by (simp add: all_defs)
  then obtain s where h:
    "run cfg_remote [Call_SetStorageMode env_fresh kAdmin] Storage_init = Some s"
    "current_storage_mode s = kAdmin"
    by blast
  have c: "StorageType cfg_remote = kMinio" by (simp add: cfg_remote_def)
  have t: "kWritable = kReadable \<or> kWritable = kWritable" by simp
  have f: "\<not> ok (InitRemoteStore_status env_remote_down)"
    by (simp add: env_remote_down_def)
  have e: "InitRemoteStore_status env_remote_down = Error ''connection refused''"
    by (simp add: env_remote_down_def)
  from remote_init_failure_reverts [OF h(1) h(2) c t f] obtain s' where
    "SetStorageMode cfg_remote env_remote_down kWritable s =
       Inr (InitRemoteStore_status env_remote_down, s')"
    "current_storage_mode s' = kAdmin" "\<not> VirtualStore_IsInit s'"
    "observable s' = observable s"
    "emitted s s' =
       [Construct CLEANUP_TRACER, Reset CLEANUP_TRACER, InitRemoteStore, UnInitRemoteStore]"
    by blast
  with h(1) e show ?thesis by auto
qed

text \<open>
  Claim C4, evaluated where it fails. The case kAdmin with the target
  \<open>kUnInitialized\<close> resets the WAL manager and returns without storing the new mode,
  which every other path does; the mode stays Admin. The next call to Readable is
  then a call from Admin to Readable: it returns OK in phase 1 and the WAL manager
  is null. For a reachable Admin state that has its WAL manager the claim holds
  (lemma \<open>readable_bring_up_with_wal\<close>).
\<close>

theorem readable_bring_up_after_admin_to_uninit:
  "\<exists>s s'. run cfg_local [Call_SetStorageMode env_fresh kAdmin,
                         Call_SetStorageMode env_fresh kUnInitialized] Storage_init = Some s \<and>
     current_storage_mode s = kAdmin \<and>
     SetStorageMode cfg_local env_fresh kReadable s = Inr (OK, s') \<and>
     current_storage_mode s' = kReadable \<and> reader_init_phase s' = kPhase1 \<and>
     wal_mgr s' = None"
  by (simp add: all_defs)

text \<open>
  Claim C5, as stated: in the mode Readable with the reader phase 1, a call to
  UnInitialized or Admin raises an unrecoverable error and does no teardown. It
  fails in the state the bring-up to Readable leaves: the tests of the phase stand
  inside the tests that the periodic trigger thread, the background processor and
  the transaction manager are not null, and in phase 1 all three are null.
\<close>

theorem phase1_teardown_is_performed:
  "\<exists>s s'. run cfg_local [Call_SetStorageMode env_fresh kAdmin,
                         Call_SetStorageMode env_fresh kReadable] Storage_init = Some s \<and>
     current_storage_mode s = kReadable \<and> reader_init_phase s = kPhase1 \<and>
     SetStorageMode cfg_local env_fresh kUnInitialized s = Inr (OK, s') \<and>
     current_storage_mode s' = kUnInitialized \<and> wal_mgr s' = None \<and> buffer_mgr s' = None"
  by (simp add: all_defs)

text \<open>
  Claim C5, amended: in the mode Readable with a reader phase other than 2, a call
  to UnInitialized or Admin raises an unrecoverable error when the periodic trigger
  thread, the background processor or the transaction manager is there; when these
  and the compaction processor are null and the storage type is supported, the
  teardown is done and OK returned.
\<close>

theorem reader_teardown_before_phase2:
  assumes "current_storage_mode s = kReadable" and "reader_init_phase s \<noteq> kPhase2"
    and "t = kUnInitialized \<or> t = kAdmin"
  shows "(periodic_trigger_thread s \<noteq> None \<or> bg_processor s \<noteq> None \<or> txn_mgr s \<noteq> None \<longrightarrow>
            (\<exists>msg. SetStorageMode cfg env t s = Inl (UnrecoverableError msg))) \<and>
         (periodic_trigger_thread s = None \<and> compact_processor s = None \<and>
          bg_processor s = None \<and> txn_mgr s = None \<and> StorageType cfg \<noteq> kUnsupported \<longrightarrow>
            (\<exists>s'. SetStorageMode cfg env t s = Inr (OK, s') \<and> current_storage_mode s' = t \<and>
               new_catalog s' = None \<and> buffer_mgr s' = None \<and> persistence_manager s' = None \<and>
               (t = kUnInitialized \<longrightarrow> wal_mgr s' = None)))"
  using assms
  by (cases "StorageType cfg")
    (auto simp: SetStorageMode_def GetStorageMode_def Let_def returning_def from_Readable_def construct_defs
      teardown_nf)

theorem reader_teardown_before_phase2_witness:
  "(\<exists>s msg. run cfg_local [Call_SetStorageMode env_fresh kAdmin,
                            Call_SetStorageMode env_fresh kReadable,
                            Call_SetStorageMode env_fresh kAdmin,
                            Call_SetStorageMode env_fresh kWritable,
                            Call_SetStorageMode env_fresh kReadable] Storage_init = Some s \<and>
      current_storage_mode s = kReadable \<and> reader_init_phase s \<noteq> kPhase2 \<and>
      periodic_trigger_thread s \<noteq> None \<and>
      SetStorageMode cfg_local env_fresh kUnInitialized s = Inl (UnrecoverableError msg)) \<and>
   (\<exists>s s'. run cfg_local [Call_SetStorageMode env_fresh kAdmin,
                           Call_SetStorageMode env_fresh kReadable] Storage_init = Some s \<and>
      current_storage_mode s = kReadable \<and> reader_init_phase s \<noteq> kPhase2 \<and>
      SetStorageMode cfg_local env_fresh kAdmin s = Inr (OK, s') \<and>
      current_storage_mode s' = kAdmin \<and> buffer_mgr s' = None)"
proof
  have "\<exists>s. run cfg_local [Call_SetStorageMode env_fresh kAdmin,
                          Call_SetStorageMode env_fresh kReadable,
                          Call_SetStorageMode env_fresh kAdmin,
                          Call_SetStorageMode env_fresh kWritable,
                          Call_SetStorageMode env_fresh kReadable] Storage_init = Some s \<and>
      current_storage_mode s = kReadable \<and> reader_init_phase s \<noteq> kPhase2 \<and>
      periodic_trigger_thread s \<noteq> None"
    by (simp add: all_defs)
  then obtain s where h:
    "run cfg_local [Call_SetStorageMode env_fresh kAdmin,
                    Call_SetStorageMode env_fresh kReadable,
                    Call_SetStorageMode env_fresh kAdmin,
                    Call_SetStorageMode env_fresh kWritable,
                    Call_SetStorageMode env_fresh kReadable] Storage_init = Some s"
    "current_storage_mode s = kReadable" "reader_init_phase s \<noteq> kPhase2"
    "periodic_trigger_thread s \<noteq> None"
    by blast
  have t: "kUnInitialized = kUnInitialized \<or> kUnInitialized = kAdmin" by simp
  from reader_teardown_before_phase2 [OF h(2,3) t, of cfg_local env_fresh, THEN conjunct1] h(4)
  obtain msg where
    "SetStorageMode cfg_local env_fresh kUnInitialized s = Inl (UnrecoverableError msg)"
    by blast
  with h show "\<exists>s msg. run cfg_local [Call_SetStorageMode env_fresh kAdmin,
                            Call_SetStorageMode env_fresh kReadable,
                            Call_SetStorageMode env_fresh kAdmin,
                            Call_SetStorageMode env_fresh kWritable,
                            Call_SetStorageMode env_fresh kReadable] Storage_init = Some s \<and>
      current_storage_mode s = kReadable \<and> reader_init_phase s \<noteq> kPhase2 \<and>
      periodic_trigger_thread s \<noteq> None \<and>
      SetStorageMode cfg_local env_fresh kUnInitialized s = Inl (UnrecoverableError msg)"
    by blast
next
  have "\<exists>s. run cfg_local [Call_SetStorageMode env_fresh kAdmin,
                          Call_SetStorageMode env_fresh kReadable] Storage_init = Some s \<and>
      current_storage_mode s = kReadable \<and> reader_init_phase s \<noteq> kPhase2 \<and>
      periodic_trigger_thread s = None \<and> compact_processor s = None \<and>
      bg_processor s = None \<and> txn_mgr s = None"
    by (simp add: all_defs)
  then obtain s where h:
    "run cfg_local [Call_SetStorageMode env_fresh kAdmin,
                    Call_SetStorageMode env_fresh kReadable] Storage_init = Some s"
    "current_storage_mode s = kReadable" "reader_init_phase s \<noteq> kPhase2"
    "periodic_trigger_thread s = None \<and> compact_processor s = None \<and>
      bg_processor s = None \<and> txn_mgr s = None"
    by blast
  have t: "kAdmin = kUnInitialized \<or> kAdmin = kAdmin" by simp
  have c: "StorageType cfg_local \<noteq> kUnsupported" by (simp add: cfg_local_def)
  from reader_teardown_before_phase2 [OF h(2,3) t, of cfg_local env_fresh, THEN conjunct2] h(4) c
  obtain s' where "SetStorageMode cfg_local env_fresh kAdmin s = Inr (OK, s')"
    "current_storage_mode s' = kAdmin" "buffer_mgr s' = None"
    by blast
  with h show "\<exists>s s'. run cfg_local [Call_SetStorageMode env_fresh kAdmin,
                           Call_SetStorageMode env_fresh kReadable] Storage_init = Some s \<and>
      current_storage_mode s = kReadable \<and> reader_init_phase s \<noteq> kPhase2 \<and>
      SetStorageMode cfg_local env_fresh kAdmin s = Inr (OK, s') \<and>
      current_storage_mode s' = kAdmin \<and> buffer_mgr s' = None"
    by blast
qed

text \<open>
  Claim C6. For every mode \<open>m\<close>, \<open>SetStorageMode m\<close> called while the current mode is
  \<open>m\<close> returns OK and leaves the state as it was: no member is constructed or reset,
  no call is made on a collaborator, the mode does not change.
\<close>

theorem set_unchanged_mode_is_noop:
  "SetStorageMode cfg env (current_storage_mode s) s = Inr (OK, s)"
  by (simp add: SetStorageMode_def GetStorageMode_def)

text \<open>
  Claim C7. In a bring-up from Admin that returns OK, a database is created exactly
  when the replay of the WAL returned the timestamp 0 and the target is Writable.
  Then the calls of the creation stand together in the log: the transaction
  "create db1" is begun, "default_db" is created with the comment
  "Initial startup created", the transaction is committed; and the creation returned
  an ok status, since \<open>CreateDefaultDB\<close> raises an unrecoverable error on any other.
\<close>

theorem default_db_created_iff_fresh_writable:
  assumes "current_storage_mode s = kAdmin" and "t = kReadable \<or> t = kWritable"
    and "SetStorageMode cfg env t s = Inr (OK, s')"
  shows "(list_ex is_CreateDatabase (emitted s s') \<longleftrightarrow>
            ReplayWalFile_ts env = 0 \<and> t = kWritable) \<and>
         (ReplayWalFile_ts env = 0 \<and> t = kWritable \<longrightarrow>
            ok (CreateDatabase_status env) \<and>
            (\<exists>xs ys. emitted s s' = xs @ default_db_calls @ ys \<and>
               \<not> list_ex is_CreateDatabase xs \<and> \<not> list_ex is_CreateDatabase ys)) \<and>
         (\<forall>s0. CreateDefaultDB env s0 =
            (if txn_mgr s0 = None then Inl (NullPointer ''txn_mgr_'')
             else if ok (CreateDatabase_status env) then Inr (log default_db_calls s0)
             else Inl (UnrecoverableError (''Can't initial 'default_db'' @ [CHR 0x27]))))"
proof -
  let ?s0 = "construct_cleanup_info_tracer s"
  from assms have f: "from_Admin cfg env kAdmin t ?s0 = Inr (OK, s')"
    by (auto simp: SetStorageMode_def GetStorageMode_def Let_def)
  have g: "grown is_CreateDatabase (events s) (events ?s0)"
    by (simp add: construct_defs present_def split: option.splits)
  from default_db_from_Admin [OF f assms(2) g] obtain xs ys where
    e: "events s' = events s @ xs @
          (if ReplayWalFile_ts env = 0 \<and> t = kWritable then default_db_calls else []) @ ys"
    and n: "\<not> list_ex is_CreateDatabase xs" "\<not> list_ex is_CreateDatabase ys"
    and o: "ReplayWalFile_ts env = 0 \<and> t = kWritable \<longrightarrow> ok (CreateDatabase_status env)"
    by blast
  from e have em: "emitted s s' = xs @
          (if ReplayWalFile_ts env = 0 \<and> t = kWritable then default_db_calls else []) @ ys"
    by (simp add: emitted_def)
  have 1: "list_ex is_CreateDatabase (emitted s s') \<longleftrightarrow> ReplayWalFile_ts env = 0 \<and> t = kWritable"
    using n by (simp add: em default_db_calls_def)
  have 2: "ReplayWalFile_ts env = 0 \<and> t = kWritable \<longrightarrow>
            ok (CreateDatabase_status env) \<and>
            (\<exists>xs ys. emitted s s' = xs @ default_db_calls @ ys \<and>
               \<not> list_ex is_CreateDatabase xs \<and> \<not> list_ex is_CreateDatabase ys)"
  proof
    assume c: "ReplayWalFile_ts env = 0 \<and> t = kWritable"
    with em have "emitted s s' = xs @ default_db_calls @ ys" by simp
    with n o c show "ok (CreateDatabase_status env) \<and>
            (\<exists>xs ys. emitted s s' = xs @ default_db_calls @ ys \<and>
               \<not> list_ex is_CreateDatabase xs \<and> \<not> list_ex is_CreateDatabase ys)"
      by blast
  qed
  from 1 2 CreateDefaultDB_eq show ?thesis by blast
qed

theorem default_db_created_iff_fresh_writable_witness:
  "\<exists>s s'. run cfg_local [Call_SetStorageMode env_fresh kAdmin] Storage_init = Some s \<and>
     current_storage_mode s = kAdmin \<and>
     SetStorageMode cfg_local env_fresh kWritable s = Inr (OK, s') \<and>
     list_ex is_CreateDatabase (emitted s s') \<and> ok (CreateDatabase_status env_fresh) \<and>
     (\<exists>xs ys. emitted s s' = xs @ default_db_calls @ ys \<and>
        \<not> list_ex is_CreateDatabase xs \<and> \<not> list_ex is_CreateDatabase ys)"
proof -
  have "\<exists>s s'. run cfg_local [Call_SetStorageMode env_fresh kAdmin] Storage_init = Some s \<and>
     current_storage_mode s = kAdmin \<and>
     SetStorageMode cfg_local env_fresh kWritable s = Inr (OK, s')"
    by (simp add: all_defs)
  then obtain s s' where h:
    "run cfg_local [Call_SetStorageMode env_fresh kAdmin] Storage_init = Some s"
    "current_storage_mode s = kAdmin"
    "SetStorageMode cfg_local env_fresh kWritable s = Inr (OK, s')"
    by blast
  have t: "kWritable = kReadable \<or> kWritable = kWritable" by simp
  have c: "ReplayWalFile_ts env_fresh = 0 \<and> kWritable = kWritable"
    by (simp add: env_fresh_def)
  note T = default_db_created_iff_fresh_writable [OF h(2) t h(3)]
  from T c have "list_ex is_CreateDatabase (emitted s s')" by blast
  moreover from T c have "ok (CreateDatabase_status env_fresh) \<and>
     (\<exists>xs ys. emitted s s' = xs @ default_db_calls @ ys \<and>
        \<not> list_ex is_CreateDatabase xs \<and> \<not> list_ex is_CreateDatabase ys)" by blast
  ultimately show ?thesis using h by blast
qed

text \<open>
  Claim C8. In every state a permitted sequence reaches with the mode Writable, the
  call to Readable returns OK with the mode Readable. It stops and resets the
  periodic trigger thread and the compaction processor, constructs a new periodic
  trigger thread that carries the cleanup trigger only, registers that trigger with
  the background processor and starts the thread. The background processor is the
  object it was, with the new trigger registered; the catalog, the transaction
  manager, the buffer manager and the WAL manager are there and are the objects
  they were.
\<close>

theorem demotion_to_readable:
  assumes r: "run cfg cs Storage_init = Some s"
    and m: "current_storage_mode s = kWritable"
  shows "\<exists>s' p b. SetStorageMode cfg env kReadable s = Inr (OK, s') \<and>
           current_storage_mode s' = kReadable \<and>
           emitted s s' =
             [Construct CLEANUP_TRACER, Reset CLEANUP_TRACER,
              Stop PERIODIC_TRIGGER, Reset PERIODIC_TRIGGER, Stop COMPACT, Reset COMPACT,
              Construct PERIODIC_TRIGGER, SetCleanupTrigger, Start PERIODIC_TRIGGER] \<and>
           compact_processor s' = None \<and>
           periodic_trigger_thread s' = Some p \<and> ptt_run p = Running \<and>
           full_checkpoint_trigger p = None \<and> delta_checkpoint_trigger p = None \<and>
           compact_segment_trigger p = None \<and> optimize_index_trigger p = None \<and>
           cleanup_trigger p =
             Some (CleanupPeriodicTrigger (clamp (CleanupInterval cfg))
                     (map_option bg_oid (bg_processor s)) (get (new_catalog s))
                     (get (txn_mgr s))) \<and>
           bg_processor s = Some b \<and>
           bg_processor s' = Some (b\<lparr>bg_cleanup_trigger := cleanup_trigger p\<rparr>) \<and>
           new_catalog s' = new_catalog s \<and> new_catalog s \<noteq> None \<and>
           txn_mgr s' = txn_mgr s \<and> txn_mgr s \<noteq> None \<and>
           buffer_mgr s' = buffer_mgr s \<and> buffer_mgr s \<noteq> None \<and>
           wal_mgr s' = wal_mgr s \<and> wal_mgr s \<noteq> None"
proof -
  have "consistent cfg s" using r by (rule reachable_consistent)
  with m show ?thesis
    by (auto simp: consistent_def SetStorageMode_def GetStorageMode_def Let_def returning_def from_Writable_def
        construct_defs teardown_nf emitted_def present_def)
qed

theorem demotion_to_readable_witness:
  "\<exists>s s' p. run cfg_local [Call_SetStorageMode env_fresh kAdmin,
                           Call_SetStorageMode env_fresh kWritable] Storage_init = Some s \<and>
     current_storage_mode s = kWritable \<and>
     SetStorageMode cfg_local env_fresh kReadable s = Inr (OK, s') \<and>
     current_storage_mode s' = kReadable \<and> compact_processor s' = None \<and>
     periodic_trigger_thread s' = Some p \<and> ptt_run p = Running \<and>
     full_checkpoint_trigger p = None \<and> cleanup_trigger p \<noteq> None \<and>
     new_catalog s' = new_catalog s \<and> new_catalog s \<noteq> None \<and>
     wal_mgr s' = wal_mgr s \<and> wal_mgr s \<noteq> None"
proof -
  have "\<exists>s. run cfg_local [Call_SetStorageMode env_fresh kAdmin,
                          Call_SetStorageMode env_fresh kWritable] Storage_init = Some s \<and>
     current_storage_mode s = kWritable"
    by (simp add: all_defs)
  then obtain s where h:
    "run cfg_local [Call_SetStorageMode env_fresh kAdmin,
                    Call_SetStorageMode env_fresh kWritable] Storage_init = Some s"
    "current_storage_mode s = kWritable"
    by blast
  from demotion_to_readable [OF h, of env_fresh] obtain s' p where
    "SetStorageMode cfg_local env_fresh kReadable s = Inr (OK, s')"
    "current_storage_mode s' = kReadable" "compact_processor s' = None"
    "periodic_trigger_thread s' = Some p" "ptt_run p = Running"
    "full_checkpoint_trigger p = None" "cleanup_trigger p \<noteq> None"
    "new_catalog s' = new_catalog s" "new_catalog s \<noteq> None"
    "wal_mgr s' = wal_mgr s" "wal_mgr s \<noteq> None"
    by auto
  with h show ?thesis by blast
qed

text \<open>
  Claim C9, evaluated where it fails. The claim has the three members there only
  under the reader phase 2. The two paths that give a reader its periodic trigger
  thread, catalog and transaction manager store the phase 2, and the teardown from
  Readable raises \<open>Error reader init phase\<close> when it finds one of them under
  another phase. The demotion from Writable to Readable builds the same periodic
  trigger thread over the catalog and the transaction manager it keeps, and never
  stores the phase. After UnInitialized, Admin, Readable, Admin, Writable, Readable
  the mode is Readable, the phase is still the 1 of the first bring-up and the three
  members are there: the promotion to Writable returns OK outside phase 2, and the
  teardown to UnInitialized of this reader aborts. Under the phase 2 the claim
  holds (lemma \<open>promotion_to_writable\<close>).
\<close>

theorem demotion_leaves_reader_phase:
  "\<exists>s s'. run cfg_local [Call_SetStorageMode env_fresh kAdmin,
                         Call_SetStorageMode env_fresh kReadable,
                         Call_SetStorageMode env_fresh kAdmin,
                         Call_SetStorageMode env_fresh kWritable,
                         Call_SetStorageMode env_fresh kReadable] Storage_init = Some s \<and>
     current_storage_mode s = kReadable \<and> reader_init_phase s = kPhase1 \<and>
     periodic_trigger_thread s \<noteq> None \<and> new_catalog s \<noteq> None \<and> txn_mgr s \<noteq> None \<and>
     SetStorageMode cfg_local env_fresh kWritable s = Inr (OK, s') \<and>
     current_storage_mode s' = kWritable \<and>
     SetStorageMode cfg_local env_fresh kUnInitialized s =
       Inl (UnrecoverableError ''Error reader init phase'')"
  by (simp add: all_defs)

text \<open>
  Claim C10. No transition drops the result cache: a bring-up from Admin to Readable
  or Writable that returns OK leaves \<open>result_cache_manager_\<close> constructed, and a
  result cache that is there is the same object after every permitted sequence of
  later calls, the teardowns to UnInitialized and to Admin among them.
\<close>

theorem result_cache_never_dropped:
  "(current_storage_mode s0 = kAdmin \<and> (t = kReadable \<or> t = kWritable) \<and>
      SetStorageMode cfg env t s0 = Inr (OK, s) \<longrightarrow> result_cache_manager s \<noteq> None) \<and>
   (result_cache_manager s = Some r \<and> run cfg cs s = Some s' \<longrightarrow>
      result_cache_manager s' = Some r)"
proof (intro conjI impI)
  assume "current_storage_mode s0 = kAdmin \<and> (t = kReadable \<or> t = kWritable) \<and>
      SetStorageMode cfg env t s0 = Inr (OK, s)"
  then show "result_cache_manager s \<noteq> None"
    using bring_up_constructs_result_cache [of s0 t cfg env s] by simp
next
  assume "result_cache_manager s = Some r \<and> run cfg cs s = Some s'"
  then show "result_cache_manager s' = Some r"
    using keeps_cache_run [of cfg cs s s' r] by simp
qed

theorem result_cache_never_dropped_witness:
  "\<exists>s0 s r s'.
     run cfg_remote [Call_SetStorageMode env_fresh kAdmin] Storage_init = Some s0 \<and>
     current_storage_mode s0 = kAdmin \<and>
     SetStorageMode cfg_remote env_fresh kWritable s0 = Inr (OK, s) \<and>
     result_cache_manager s = Some r \<and>
     run cfg_remote [Call_SetStorageMode env_fresh kUnInitialized,
                     Call_SetStorageMode env_fresh kAdmin] s = Some s' \<and>
     result_cache_manager s' = Some r"
proof -
  have "\<exists>s0 s s'.
     run cfg_remote [Call_SetStorageMode env_fresh kAdmin] Storage_init = Some s0 \<and>
     current_storage_mode s0 = kAdmin \<and>
     SetStorageMode cfg_remote env_fresh kWritable s0 = Inr (OK, s) \<and>
     run cfg_remote [Call_SetStorageMode env_fresh kUnInitialized,
                     Call_SetStorageMode env_fresh kAdmin] s = Some s'"
    by (simp add: all_defs)
  then obtain s0 s s' where h:
    "run cfg_remote [Call_SetStorageMode env_fresh kAdmin] Storage_init = Some s0"
    "current_storage_mode s0 = kAdmin"
    "SetStorageMode cfg_remote env_fresh kWritable s0 = Inr (OK, s)"
    "run cfg_remote [Call_SetStorageMode env_fresh kUnInitialized,
                     Call_SetStorageMode env_fresh kAdmin] s = Some s'"
    by blast
  have "result_cache_manager s \<noteq> None"
    by (rule result_cache_never_dropped
          [where ?s0.0 = s0 and t = kWritable and cfg = cfg_remote and env = env_fresh,
           THEN conjunct1, THEN mp])
      (simp add: h)
  then obtain r where r: "result_cache_manager s = Some r"
    by (cases "result_cache_manager s") simp_all
  have r': "result_cache_manager s' = Some r"
    by (rule result_cache_never_dropped
          [where cfg = cfg_remote and s = s and r = r and s' = s' and
             cs = "[Call_SetStorageMode env_fresh kUnInitialized,
                    Call_SetStorageMode env_fresh kAdmin]",
           THEN conjunct2, THEN mp])
      (simp only: r h(4) simp_thms)
  from h r r' show ?thesis by blast
qed

end
